theory Spec2Isabelle
  imports Complex_Main "HOL-Library.Word" "HOL-Library.Char_ord" "HOL-Library.List_Lexorder"
    "HOL-Library.Multiset"
begin

section \<open>Ride Management System: data model\<close>

text \<open>
  The repository holds two near-identical canister sources. \<^verbatim>\<open>src/index.ts\<close> validates
  its payloads and keeps a field for a cached average rating on the ride record; the second
  source file (the one that defines \<^verbatim>\<open>filterRidesByAvailableSeats\<close>) validates nothing and
  recomputes the average from the reviews on every read. A function that occurs in both files is
  embedded twice: with the suffix \<open>_c\<close> (cached) for \<^verbatim>\<open>src/index.ts\<close> and with the suffix
  \<open>_r\<close> (recompute) for the other file. A function that occurs in one file only keeps its
  name.

  A TypeScript \<^verbatim>\<open>number\<close> is a rational, NaN or one of the two infinities: sums and
  quotients of rationals are exact, so the rounding of IEEE doubles is left out. A
  \<^verbatim>\<open>nat64\<close> is a 64-bit word. Strings are compared as character lists, lexicographically.
  An \<^verbatim>\<open>Opt\<close> of the host library is an \<open>option\<close>. The calls
  \<^verbatim>\<open>uuidv4()\<close> and \<^verbatim>\<open>ic.time()\<close> are the host's: their results are parameters
  (\<open>newId\<close>, \<open>now\<close>) of the operation that makes the call.

  Several TypeScript types share field names; a field is then written with its record's
  name in front (\<open>RideReviewRecord.createdAt\<close>). The field \<^verbatim>\<open>id\<close> is written \<open>id'\<close>.
\<close>

datatype number = Num rat | NaN | PosInf | NegInf

text \<open>
  Addition of numbers: NaN is absorbing, and so is the sum of the two infinities. Zero is
  \<open>Num 0\<close>.
\<close>

instantiation number :: comm_monoid_add
begin

definition zero_number :: number where
  "zero_number = Num 0"

fun plus_number :: "number \<Rightarrow> number \<Rightarrow> number" where
  "plus_number NaN y = NaN"
| "plus_number x NaN = NaN"
| "plus_number (Num a) (Num b) = Num (a + b)"
| "plus_number PosInf NegInf = NaN"
| "plus_number NegInf PosInf = NaN"
| "plus_number PosInf y = PosInf"
| "plus_number NegInf y = NegInf"
| "plus_number (Num a) y = y"

instance
proof
  fix x y z :: number
  show "0 + x = x"
    unfolding zero_number_def by (cases x) auto
  show "x + y = y + x"
    by (cases x; cases y) auto
  show "x + y + z = x + (y + z)"
    by (cases x; cases y; cases z) auto
qed

end

text \<open>
  The comparisons \<^verbatim>\<open><\<close> and \<^verbatim>\<open><=\<close> of JavaScript (\<^verbatim>\<open>a > b\<close> is \<^verbatim>\<open>b < a\<close>, \<^verbatim>\<open>a >= b\<close> is
  \<^verbatim>\<open>b <= a\<close>): every comparison with NaN is false, also that of NaN with itself.
\<close>

instantiation number :: ord
begin

fun less_number :: "number \<Rightarrow> number \<Rightarrow> bool" where
  "less_number NaN y = False"
| "less_number x NaN = False"
| "less_number (Num a) (Num b) = (a < b)"
| "less_number x NegInf = False"
| "less_number PosInf y = False"
| "less_number NegInf y = True"
| "less_number (Num a) PosInf = True"

fun less_eq_number :: "number \<Rightarrow> number \<Rightarrow> bool" where
  "less_eq_number NaN y = False"
| "less_eq_number x NaN = False"
| "less_eq_number (Num a) (Num b) = (a \<le> b)"
| "less_eq_number NegInf y = True"
| "less_eq_number x PosInf = True"
| "less_eq_number x NegInf = False"
| "less_eq_number PosInf y = False"

instance ..

end

text \<open>The quotient of a number by the length of an array, \<^verbatim>\<open>x / xs.length\<close>.\<close>

fun divide_by_length :: "number \<Rightarrow> nat \<Rightarrow> number" where
  "divide_by_length NaN n = NaN"
| "divide_by_length (Num a) n =
     (if n = 0 then (if a = 0 then NaN else if 0 < a then PosInf else NegInf)
      else Num (a / of_nat n))"
| "divide_by_length PosInf n = PosInf"
| "divide_by_length NegInf n = NegInf"
type_synonym nat64 = "64 word"

text \<open>The argument object of \<^verbatim>\<open>filterRides\<close>: every field is optional.\<close>

record FilterCriteria =
  startLocation :: "string option"
  endLocation :: "string option"
  startDate :: "string option"
  endDate :: "string option"
  minAvailableSeats :: "number option"

text \<open>
  The object that \<^verbatim>\<open>updateRide\<close> of \<^verbatim>\<open>src/index.ts\<close> receives at run time. Its declared type
  is \<^verbatim>\<open>RidePayload\<close>, but the field-scoped updates of that file call it with an object
  literal of a single field, so each field may be absent.
\<close>

record PartialRidePayload =
  providerId :: "string option"
  date :: "string option"
  startTime :: "string option"
  endTime :: "string option"
  startLocation :: "string option"
  endLocation :: "string option"
  availableSeats :: "number option"
  description :: "string option"

record RideReviewPayload =
  rideId :: string
  userId :: string
  rating :: number
  comment :: string

record RideReviewRecord = RideReviewPayload +
  id' :: string
  createdAt :: nat64

record RidePayload =
  providerId :: string
  date :: string
  startTime :: string
  endTime :: string
  startLocation :: string
  endLocation :: string
  availableSeats :: number
  description :: string

text \<open>\<^verbatim>\<open>RideRecord\<close> of the recompute variant; the cached variant adds \<^verbatim>\<open>averageRating\<close>.\<close>

record RideRecord = RidePayload +
  id' :: string
  createdAt :: nat64
  updatedAt :: "nat64 option"

record RideRecordC = RideRecord +
  averageRating :: "number option"

text \<open>
  The error strings of the source, by kind. \<open>NotFound i\<close> is the template string
  \<^verbatim>\<open>Ride with id=${id} not found\<close>; \<open>RideNotFound\<close> is the fixed string that
  \<^verbatim>\<open>getRideAverageRating\<close> of \<^verbatim>\<open>src/index.ts\<close> returns for a missing ride.
\<close>

datatype error = InvalidPayload | NotFound string | RideNotFound | NoReviews

fun error_message :: "error \<Rightarrow> string" where
  "error_message InvalidPayload = ''Invalid input payload''"
| "error_message (NotFound ident) = ''Ride with id='' @ ident @ '' not found''"
| "error_message RideNotFound = ''Ride not found''"
| "error_message NoReviews = ''No reviews found for the ride''"

text \<open>
  What a call does: it returns \<^verbatim>\<open>Result.Ok(v)\<close>, it returns \<^verbatim>\<open>Result.Err(message)\<close>, or it
  throws. The one exception the source can raise is the \<^verbatim>\<open>TypeError\<close> of calling a method
  that the receiver does not have.
\<close>

datatype exn = TypeError

datatype 'a outcome = Ok 'a | Err error | Throws exn

subsection \<open>The key-value store\<close>

text \<open>
  \<^verbatim>\<open>StableBTreeMap\<close> is the host library's. The model is an association list: \<open>btm_get\<close>
  is the point lookup, \<open>btm_insert\<close> replaces the entry of a key that is present and adds
  an entry otherwise, \<open>btm_remove\<close> returns the removed value and the remaining store,
  \<open>btm_values\<close> enumerates the values. The position of an entry in the list stands for
  the store's iteration order, which the source never relies on.
\<close>

type_synonym 'v StableBTreeMap = "(string \<times> 'v) list"

definition btm_get :: "'v StableBTreeMap \<Rightarrow> string \<Rightarrow> 'v option" where
  "btm_get m k = map_of m k"

fun btm_insert :: "string \<Rightarrow> 'v \<Rightarrow> 'v StableBTreeMap \<Rightarrow> 'v StableBTreeMap" where
  "btm_insert k v [] = [(k, v)]"
| "btm_insert k v (e # m) = (if fst e = k then (k, v) # m else e # btm_insert k v m)"

definition btm_remove :: "'v StableBTreeMap \<Rightarrow> string \<Rightarrow> 'v option \<times> 'v StableBTreeMap" where
  "btm_remove m k = (map_of m k, filter (\<lambda>e. fst e \<noteq> k) m)"

definition btm_values :: "'v StableBTreeMap \<Rightarrow> 'v list" where
  "btm_values m = map snd m"

record 'r Storage =
  rideStorage :: "'r StableBTreeMap"
  rideReviewStorage :: "RideReviewRecord StableBTreeMap"

type_synonym state_c = "RideRecordC Storage"
type_synonym state_r = "RideRecord Storage"

subsection \<open>JavaScript primitives\<close>

text \<open>A string is falsy when it is empty, a number when it is zero or NaN.\<close>

definition falsy_string :: "string \<Rightarrow> bool" where
  "falsy_string s = (s = [])"

definition falsy_number :: "number \<Rightarrow> bool" where
  "falsy_number n = (n = Num 0 \<or> n = NaN)"

text \<open>\<^verbatim>\<open>toLowerCase\<close>, on the ASCII letters.\<close>

definition toLowerCase :: "string \<Rightarrow> string" where
  "toLowerCase s =
     map (\<lambda>c. if CHR ''A'' \<le> c \<and> c \<le> CHR ''Z'' then char_of (of_char c + (32::nat)) else c) s"

section \<open>The cached variant (src/index.ts)\<close>

text \<open>
  \<^verbatim>\<open>updateRideAverageRating\<close> and \<^verbatim>\<open>getRideAverageRating\<close> call
  \<^verbatim>\<open>record.averageRating.isSome()\<close> on the stored record. An \<^verbatim>\<open>Opt\<close> of the host library
  is a plain object, \<^verbatim>\<open>{ Some: v }\<close> or \<^verbatim>\<open>{ None: null }\<close>: it is what \<^verbatim>\<open>Opt.Some\<close>,
  \<^verbatim>\<open>Opt.None\<close> and \<^verbatim>\<open>match\<close> of this file build and read, and it has no method
  \<^verbatim>\<open>isSome\<close>. The call throws a \<^verbatim>\<open>TypeError\<close> for every stored record, whatever its
  \<open>averageRating\<close>, and the statements after it (the incremental average, the write of the
  updated record) are never reached. The state paired with \<open>Throws\<close> is the stores as the
  code left them when the exception was raised; what the host then does with them is not
  the source's.
\<close>

definition updateRideAverageRating ::
  "string \<Rightarrow> number \<Rightarrow> state_c \<Rightarrow> unit outcome \<times> state_c" where
  "updateRideAverageRating rid newRating s =
     (case btm_get (rideStorage s) rid of
        Some record \<Rightarrow> (Throws TypeError, s)
      | None \<Rightarrow> (Ok (), s))"

definition addRideReview_c ::
  "RideReviewPayload \<Rightarrow> string \<Rightarrow> nat64 \<Rightarrow> state_c \<Rightarrow> RideReviewRecord outcome \<times> state_c" where
  "addRideReview_c payload newId now s =
     (if falsy_string (rideId payload) \<or> falsy_string (userId payload)
         \<or> rating payload < Num 1 \<or> rating payload > Num 5 \<or> falsy_string (comment payload)
      then (Err InvalidPayload, s)
      else
        (let review = \<lparr>rideId = rideId payload, userId = userId payload,
                        rating = rating payload, comment = comment payload,
                        RideReviewRecord.id' = newId, RideReviewRecord.createdAt = now\<rparr>;
             s1 = s\<lparr>rideReviewStorage :=
                      btm_insert (RideReviewRecord.id' review) review (rideReviewStorage s)\<rparr>
         in (case updateRideAverageRating (rideId payload) (rating review) s1 of
               (Throws e, s2) \<Rightarrow> (Throws e, s2)
             | (_, s2) \<Rightarrow> (Ok review, s2))))"

definition getRideReviews_c :: "string \<Rightarrow> state_c \<Rightarrow> RideReviewRecord list outcome \<times> state_c" where
  "getRideReviews_c rid s =
     (let reviews = filter (\<lambda>review. rideId review = rid) (btm_values (rideReviewStorage s))
      in (Ok reviews, s))"

definition getRideAverageRating_c :: "string \<Rightarrow> state_c \<Rightarrow> number outcome \<times> state_c" where
  "getRideAverageRating_c rid s =
     (case btm_get (rideStorage s) rid of
        Some record \<Rightarrow> (Throws TypeError, s)
      | None \<Rightarrow> (Err RideNotFound, s))"

definition addRide_c ::
  "RidePayload \<Rightarrow> string \<Rightarrow> nat64 \<Rightarrow> state_c \<Rightarrow> RideRecordC outcome \<times> state_c" where
  "addRide_c payload newId now s =
     (if falsy_string (providerId payload) \<or> falsy_string (date payload)
         \<or> falsy_string (startTime payload) \<or> falsy_string (endTime payload)
         \<or> falsy_string (startLocation payload) \<or> falsy_string (endLocation payload)
         \<or> falsy_number (availableSeats payload) \<or> falsy_string (description payload)
      then (Err InvalidPayload, s)
      else
        (let record = \<lparr>providerId = providerId payload, date = date payload,
                        startTime = startTime payload, endTime = endTime payload,
                        startLocation = startLocation payload,
                        endLocation = endLocation payload,
                        availableSeats = availableSeats payload,
                        description = description payload,
                        id' = newId, createdAt = now, updatedAt = None,
                        averageRating = None\<rparr>
         in (Ok record, s\<lparr>rideStorage := btm_insert (id' record) record (rideStorage s)\<rparr>)))"

text \<open>The object spread \<^verbatim>\<open>{ ...record, ...payload }\<close>: a field of the payload wins when present.\<close>

definition spread :: "'a RidePayload_scheme \<Rightarrow> PartialRidePayload \<Rightarrow> 'a RidePayload_scheme" where
  "spread record payload =
     record\<lparr>providerId := (case PartialRidePayload.providerId payload of
                               Some v \<Rightarrow> v | None \<Rightarrow> providerId record),
            date := (case PartialRidePayload.date payload of
                       Some v \<Rightarrow> v | None \<Rightarrow> date record),
            startTime := (case PartialRidePayload.startTime payload of
                            Some v \<Rightarrow> v | None \<Rightarrow> startTime record),
            endTime := (case PartialRidePayload.endTime payload of
                          Some v \<Rightarrow> v | None \<Rightarrow> endTime record),
            startLocation := (case PartialRidePayload.startLocation payload of
                                Some v \<Rightarrow> v | None \<Rightarrow> startLocation record),
            endLocation := (case PartialRidePayload.endLocation payload of
                              Some v \<Rightarrow> v | None \<Rightarrow> endLocation record),
            availableSeats := (case PartialRidePayload.availableSeats payload of
                                 Some v \<Rightarrow> v | None \<Rightarrow> availableSeats record),
            description := (case PartialRidePayload.description payload of
                              Some v \<Rightarrow> v | None \<Rightarrow> description record)\<rparr>"

text \<open>A payload of the declared type, as the object that carries all its fields.\<close>

definition full :: "RidePayload \<Rightarrow> PartialRidePayload" where
  "full payload =
     \<lparr>PartialRidePayload.providerId = Some (providerId payload),
      PartialRidePayload.date = Some (date payload),
      PartialRidePayload.startTime = Some (startTime payload),
      PartialRidePayload.endTime = Some (endTime payload),
      PartialRidePayload.startLocation = Some (startLocation payload),
      PartialRidePayload.endLocation = Some (endLocation payload),
      PartialRidePayload.availableSeats = Some (availableSeats payload),
      PartialRidePayload.description = Some (description payload)\<rparr>"

text \<open>The empty object literal, to which the single-field literals add their field.\<close>

definition no_fields :: PartialRidePayload where
  "no_fields =
     \<lparr>PartialRidePayload.providerId = None, PartialRidePayload.date = None,
      PartialRidePayload.startTime = None, PartialRidePayload.endTime = None,
      PartialRidePayload.startLocation = None, PartialRidePayload.endLocation = None,
      PartialRidePayload.availableSeats = None, PartialRidePayload.description = None\<rparr>"

definition updateRide_c ::
  "string \<Rightarrow> PartialRidePayload \<Rightarrow> nat64 \<Rightarrow> state_c \<Rightarrow> RideRecordC outcome \<times> state_c" where
  "updateRide_c ident payload now s =
     (case btm_get (rideStorage s) ident of
        Some record \<Rightarrow>
          (let updatedRecord = (spread record payload)\<lparr>updatedAt := Some now\<rparr>
           in (Ok updatedRecord,
               s\<lparr>rideStorage := btm_insert (id' record) updatedRecord (rideStorage s)\<rparr>))
      | None \<Rightarrow> (Err (NotFound ident), s))"

definition deleteRide_c :: "string \<Rightarrow> state_c \<Rightarrow> RideRecordC outcome \<times> state_c" where
  "deleteRide_c ident s =
     (case btm_remove (rideStorage s) ident of
        (Some deletedRecord, m) \<Rightarrow> (Ok deletedRecord, s\<lparr>rideStorage := m\<rparr>)
      | (None, m) \<Rightarrow> (Err (NotFound ident), s\<lparr>rideStorage := m\<rparr>))"

definition getRide_c :: "string \<Rightarrow> state_c \<Rightarrow> RideRecordC outcome \<times> state_c" where
  "getRide_c ident s =
     (case btm_get (rideStorage s) ident of
        Some record \<Rightarrow> (Ok record, s)
      | None \<Rightarrow> (Err (NotFound ident), s))"

definition getAllRides_c :: "state_c \<Rightarrow> RideRecordC list outcome \<times> state_c" where
  "getAllRides_c s = (Ok (btm_values (rideStorage s)), s)"

text \<open>
  \<^verbatim>\<open>filterRides\<close>: a criterion applies when its field is truthy (present, and not the empty
  string or zero); the date range applies when both of its ends are.
\<close>

definition truthy_string :: "string option \<Rightarrow> bool" where
  "truthy_string v = (case v of Some x \<Rightarrow> \<not> falsy_string x | None \<Rightarrow> False)"

definition truthy_number :: "number option \<Rightarrow> bool" where
  "truthy_number v = (case v of Some x \<Rightarrow> \<not> falsy_number x | None \<Rightarrow> False)"

definition filterRides_match :: "FilterCriteria \<Rightarrow> RideRecordC \<Rightarrow> bool" where
  "filterRides_match filterCriteria ride =
     (let match0 = True;
          match1 =
            (if truthy_string (FilterCriteria.startLocation filterCriteria)
                \<and> toLowerCase (startLocation ride)
                    \<noteq> toLowerCase (the (FilterCriteria.startLocation filterCriteria))
             then False else match0);
          match2 =
            (if truthy_string (FilterCriteria.endLocation filterCriteria)
                \<and> toLowerCase (endLocation ride)
                    \<noteq> toLowerCase (the (FilterCriteria.endLocation filterCriteria))
             then False else match1);
          match3 =
            (if truthy_string (startDate filterCriteria) \<and> truthy_string (endDate filterCriteria)
                \<and> (date ride < the (startDate filterCriteria)
                    \<or> date ride > the (endDate filterCriteria))
             then False else match2);
          match4 =
            (if truthy_number (minAvailableSeats filterCriteria)
                \<and> availableSeats ride < the (minAvailableSeats filterCriteria)
             then False else match3)
      in match4)"

definition filterRides :: "FilterCriteria \<Rightarrow> state_c \<Rightarrow> RideRecordC list outcome \<times> state_c" where
  "filterRides filterCriteria s =
     (let records = btm_values (rideStorage s);
          filteredRides = filter (filterRides_match filterCriteria) records
      in (Ok filteredRides, s))"

definition updateRideAvailableSeats_c ::
  "string \<Rightarrow> number \<Rightarrow> nat64 \<Rightarrow> state_c \<Rightarrow> RideRecordC outcome \<times> state_c" where
  "updateRideAvailableSeats_c ident newAvailableSeats now s =
     updateRide_c ident
       (no_fields\<lparr>PartialRidePayload.availableSeats := Some newAvailableSeats\<rparr>) now s"

definition getRidesByProvider_c :: "string \<Rightarrow> state_c \<Rightarrow> RideRecordC list outcome \<times> state_c" where
  "getRidesByProvider_c pid s =
     (let rides = filter (\<lambda>ride. providerId ride = pid) (btm_values (rideStorage s))
      in (Ok rides, s))"

definition updateRideStartLocation_c ::
  "string \<Rightarrow> string \<Rightarrow> nat64 \<Rightarrow> state_c \<Rightarrow> RideRecordC outcome \<times> state_c" where
  "updateRideStartLocation_c ident newStartLocation now s =
     updateRide_c ident
       (no_fields\<lparr>PartialRidePayload.startLocation := Some newStartLocation\<rparr>) now s"

definition updateRideEndLocation_c ::
  "string \<Rightarrow> string \<Rightarrow> nat64 \<Rightarrow> state_c \<Rightarrow> RideRecordC outcome \<times> state_c" where
  "updateRideEndLocation_c ident newEndLocation now s =
     updateRide_c ident
       (no_fields\<lparr>PartialRidePayload.endLocation := Some newEndLocation\<rparr>) now s"

definition updateRideDate_c ::
  "string \<Rightarrow> string \<Rightarrow> nat64 \<Rightarrow> state_c \<Rightarrow> RideRecordC outcome \<times> state_c" where
  "updateRideDate_c ident newDate now s =
     updateRide_c ident (no_fields\<lparr>PartialRidePayload.date := Some newDate\<rparr>) now s"

definition updateRideStartTime_c ::
  "string \<Rightarrow> string \<Rightarrow> nat64 \<Rightarrow> state_c \<Rightarrow> RideRecordC outcome \<times> state_c" where
  "updateRideStartTime_c ident newStartTime now s =
     updateRide_c ident (no_fields\<lparr>PartialRidePayload.startTime := Some newStartTime\<rparr>) now s"

definition updateRideEndTime_c ::
  "string \<Rightarrow> string \<Rightarrow> nat64 \<Rightarrow> state_c \<Rightarrow> RideRecordC outcome \<times> state_c" where
  "updateRideEndTime_c ident newEndTime now s =
     updateRide_c ident (no_fields\<lparr>PartialRidePayload.endTime := Some newEndTime\<rparr>) now s"

section \<open>The recompute variant (the second source file)\<close>

definition addRideReview_r ::
  "RideReviewPayload \<Rightarrow> string \<Rightarrow> nat64 \<Rightarrow> state_r \<Rightarrow> RideReviewRecord outcome \<times> state_r" where
  "addRideReview_r payload newId now s =
     (let review = \<lparr>rideId = rideId payload, userId = userId payload,
                     rating = rating payload, comment = comment payload,
                     RideReviewRecord.id' = newId, RideReviewRecord.createdAt = now\<rparr>
      in (Ok review,
          s\<lparr>rideReviewStorage :=
               btm_insert (RideReviewRecord.id' review) review (rideReviewStorage s)\<rparr>))"

definition getRideReviews_r :: "string \<Rightarrow> state_r \<Rightarrow> RideReviewRecord list outcome \<times> state_r" where
  "getRideReviews_r rid s =
     (let reviews = filter (\<lambda>review. rideId review = rid) (btm_values (rideReviewStorage s))
      in (Ok reviews, s))"

definition getRideAverageRating_r :: "string \<Rightarrow> state_r \<Rightarrow> number outcome \<times> state_r" where
  "getRideAverageRating_r rid s =
     (let reviews = filter (\<lambda>review. rideId review = rid) (btm_values (rideReviewStorage s))
      in if length reviews = 0 then (Err NoReviews, s)
         else
           (let totalRating = foldl (\<lambda>sum review. sum + rating review) 0 reviews;
                averageRating' = divide_by_length totalRating (length reviews)
            in (Ok averageRating', s)))"

definition addRide_r ::
  "RidePayload \<Rightarrow> string \<Rightarrow> nat64 \<Rightarrow> state_r \<Rightarrow> RideRecord outcome \<times> state_r" where
  "addRide_r payload newId now s =
     (let record = \<lparr>providerId = providerId payload, date = date payload,
                     startTime = startTime payload, endTime = endTime payload,
                     startLocation = startLocation payload,
                     endLocation = endLocation payload,
                     availableSeats = availableSeats payload,
                     description = description payload,
                     id' = newId, createdAt = now, updatedAt = None\<rparr>
      in (Ok record, s\<lparr>rideStorage := btm_insert (id' record) record (rideStorage s)\<rparr>))"

definition updateRide_r ::
  "string \<Rightarrow> RidePayload \<Rightarrow> nat64 \<Rightarrow> state_r \<Rightarrow> RideRecord outcome \<times> state_r" where
  "updateRide_r ident payload now s =
     (case btm_get (rideStorage s) ident of
        Some record \<Rightarrow>
          (let updatedRecord = (spread record (full payload))\<lparr>updatedAt := Some now\<rparr>
           in (Ok updatedRecord,
               s\<lparr>rideStorage := btm_insert (id' record) updatedRecord (rideStorage s)\<rparr>))
      | None \<Rightarrow> (Err (NotFound ident), s))"

definition deleteRide_r :: "string \<Rightarrow> state_r \<Rightarrow> RideRecord outcome \<times> state_r" where
  "deleteRide_r ident s =
     (case btm_remove (rideStorage s) ident of
        (Some deletedRecord, m) \<Rightarrow> (Ok deletedRecord, s\<lparr>rideStorage := m\<rparr>)
      | (None, m) \<Rightarrow> (Err (NotFound ident), s\<lparr>rideStorage := m\<rparr>))"

definition getRide_r :: "string \<Rightarrow> state_r \<Rightarrow> RideRecord outcome \<times> state_r" where
  "getRide_r ident s =
     (case btm_get (rideStorage s) ident of
        Some record \<Rightarrow> (Ok record, s)
      | None \<Rightarrow> (Err (NotFound ident), s))"

definition getAllRides_r :: "state_r \<Rightarrow> RideRecord list outcome \<times> state_r" where
  "getAllRides_r s = (Ok (btm_values (rideStorage s)), s)"

definition searchRidesByStartLocation ::
  "string \<Rightarrow> state_r \<Rightarrow> RideRecord list outcome \<times> state_r" where
  "searchRidesByStartLocation location s =
     (let records = btm_values (rideStorage s);
          filteredRides =
            filter (\<lambda>ride. toLowerCase (startLocation ride) = toLowerCase location) records
      in (Ok filteredRides, s))"

definition filterRidesByDateRange ::
  "string \<Rightarrow> string \<Rightarrow> state_r \<Rightarrow> RideRecord list outcome \<times> state_r" where
  "filterRidesByDateRange startDate' endDate' s =
     (let records = btm_values (rideStorage s);
          filteredRides =
            filter (\<lambda>ride. date ride \<ge> startDate' \<and> date ride \<le> endDate') records
      in (Ok filteredRides, s))"

definition updateRideAvailableSeats_r ::
  "string \<Rightarrow> number \<Rightarrow> nat64 \<Rightarrow> state_r \<Rightarrow> RideRecord outcome \<times> state_r" where
  "updateRideAvailableSeats_r ident newAvailableSeats now s =
     (case btm_get (rideStorage s) ident of
        Some record \<Rightarrow>
          (let updatedRecord =
                 record\<lparr>availableSeats := newAvailableSeats, updatedAt := Some now\<rparr>
           in (Ok updatedRecord,
               s\<lparr>rideStorage := btm_insert (id' record) updatedRecord (rideStorage s)\<rparr>))
      | None \<Rightarrow> (Err (NotFound ident), s))"

definition getRidesByProvider_r :: "string \<Rightarrow> state_r \<Rightarrow> RideRecord list outcome \<times> state_r" where
  "getRidesByProvider_r pid s =
     (let rides = filter (\<lambda>ride. providerId ride = pid) (btm_values (rideStorage s))
      in (Ok rides, s))"

definition searchRidesByEndLocation ::
  "string \<Rightarrow> state_r \<Rightarrow> RideRecord list outcome \<times> state_r" where
  "searchRidesByEndLocation location s =
     (let records = btm_values (rideStorage s);
          filteredRides =
            filter (\<lambda>ride. toLowerCase (endLocation ride) = toLowerCase location) records
      in (Ok filteredRides, s))"

definition filterRidesByAvailableSeats ::
  "number \<Rightarrow> state_r \<Rightarrow> RideRecord list outcome \<times> state_r" where
  "filterRidesByAvailableSeats minSeats s =
     (let records = btm_values (rideStorage s);
          filteredRides = filter (\<lambda>ride. availableSeats ride \<ge> minSeats) records
      in (Ok filteredRides, s))"

definition updateRideStartLocation_r ::
  "string \<Rightarrow> string \<Rightarrow> nat64 \<Rightarrow> state_r \<Rightarrow> RideRecord outcome \<times> state_r" where
  "updateRideStartLocation_r ident newStartLocation now s =
     (case btm_get (rideStorage s) ident of
        Some record \<Rightarrow>
          (let updatedRecord =
                 record\<lparr>startLocation := newStartLocation, updatedAt := Some now\<rparr>
           in (Ok updatedRecord,
               s\<lparr>rideStorage := btm_insert (id' record) updatedRecord (rideStorage s)\<rparr>))
      | None \<Rightarrow> (Err (NotFound ident), s))"

definition updateRideEndLocation_r ::
  "string \<Rightarrow> string \<Rightarrow> nat64 \<Rightarrow> state_r \<Rightarrow> RideRecord outcome \<times> state_r" where
  "updateRideEndLocation_r ident newEndLocation now s =
     (case btm_get (rideStorage s) ident of
        Some record \<Rightarrow>
          (let updatedRecord =
                 record\<lparr>endLocation := newEndLocation, updatedAt := Some now\<rparr>
           in (Ok updatedRecord,
               s\<lparr>rideStorage := btm_insert (id' record) updatedRecord (rideStorage s)\<rparr>))
      | None \<Rightarrow> (Err (NotFound ident), s))"

definition updateRideDate_r ::
  "string \<Rightarrow> string \<Rightarrow> nat64 \<Rightarrow> state_r \<Rightarrow> RideRecord outcome \<times> state_r" where
  "updateRideDate_r ident newDate now s =
     (case btm_get (rideStorage s) ident of
        Some record \<Rightarrow>
          (let updatedRecord = record\<lparr>date := newDate, updatedAt := Some now\<rparr>
           in (Ok updatedRecord,
               s\<lparr>rideStorage := btm_insert (id' record) updatedRecord (rideStorage s)\<rparr>))
      | None \<Rightarrow> (Err (NotFound ident), s))"

definition updateRideStartTime_r ::
  "string \<Rightarrow> string \<Rightarrow> nat64 \<Rightarrow> state_r \<Rightarrow> RideRecord outcome \<times> state_r" where
  "updateRideStartTime_r ident newStartTime now s =
     (case btm_get (rideStorage s) ident of
        Some record \<Rightarrow>
          (let updatedRecord = record\<lparr>startTime := newStartTime, updatedAt := Some now\<rparr>
           in (Ok updatedRecord,
               s\<lparr>rideStorage := btm_insert (id' record) updatedRecord (rideStorage s)\<rparr>))
      | None \<Rightarrow> (Err (NotFound ident), s))"

definition updateRideEndTime_r ::
  "string \<Rightarrow> string \<Rightarrow> nat64 \<Rightarrow> state_r \<Rightarrow> RideRecord outcome \<times> state_r" where
  "updateRideEndTime_r ident newEndTime now s =
     (case btm_get (rideStorage s) ident of
        Some record \<Rightarrow>
          (let updatedRecord = record\<lparr>endTime := newEndTime, updatedAt := Some now\<rparr>
           in (Ok updatedRecord,
               s\<lparr>rideStorage := btm_insert (id' record) updatedRecord (rideStorage s)\<rparr>))
      | None \<Rightarrow> (Err (NotFound ident), s))"

section \<open>States of a run\<close>

text \<open>Both stores are empty when the canister starts.\<close>

definition initial :: "'r Storage" where
  "initial = \<lparr>rideStorage = [], rideReviewStorage = []\<rparr>"

text \<open>
  The states that the update calls can produce from the initial one. The queries leave
  the state as it is and need no rule; the field-scoped updates of the cached variant are
  calls of \<open>updateRide_c\<close>. Nothing is assumed of the identifiers and times the host
  supplies, and a state left by a call that throws counts as produced, so these are at
  least the states of the real runs.
\<close>

inductive reachable_c :: "state_c \<Rightarrow> bool" where
  init_c: "reachable_c initial"
| addRide_c: "reachable_c s \<Longrightarrow> reachable_c (snd (addRide_c payload newId now s))"
| updateRide_c: "reachable_c s \<Longrightarrow> reachable_c (snd (updateRide_c ident obj now s))"
| deleteRide_c: "reachable_c s \<Longrightarrow> reachable_c (snd (deleteRide_c ident s))"
| addRideReview_c:
    "reachable_c s \<Longrightarrow> reachable_c (snd (addRideReview_c review newId now s))"

inductive reachable_r :: "state_r \<Rightarrow> bool" where
  init_r: "reachable_r initial"
| addRide_r: "reachable_r s \<Longrightarrow> reachable_r (snd (addRide_r payload newId now s))"
| updateRide_r: "reachable_r s \<Longrightarrow> reachable_r (snd (updateRide_r ident payload now s))"
| deleteRide_r: "reachable_r s \<Longrightarrow> reachable_r (snd (deleteRide_r ident s))"
| addRideReview_r: "reachable_r s \<Longrightarrow> reachable_r (snd (addRideReview_r review newId now s))"
| updateRideAvailableSeats_r:
    "reachable_r s \<Longrightarrow> reachable_r (snd (updateRideAvailableSeats_r ident n now s))"
| updateRideStartLocation_r:
    "reachable_r s \<Longrightarrow> reachable_r (snd (updateRideStartLocation_r ident v now s))"
| updateRideEndLocation_r:
    "reachable_r s \<Longrightarrow> reachable_r (snd (updateRideEndLocation_r ident v now s))"
| updateRideDate_r: "reachable_r s \<Longrightarrow> reachable_r (snd (updateRideDate_r ident v now s))"
| updateRideStartTime_r:
    "reachable_r s \<Longrightarrow> reachable_r (snd (updateRideStartTime_r ident v now s))"
| updateRideEndTime_r:
    "reachable_r s \<Longrightarrow> reachable_r (snd (updateRideEndTime_r ident v now s))"

text \<open>Every ride is stored under its own identifier.\<close>

definition keyed :: "('a RideRecord_scheme) StableBTreeMap \<Rightarrow> bool" where
  "keyed m = list_all (\<lambda>e. id' (snd e) = fst e) m"

text \<open>No stored ride has a cached average.\<close>

definition never_cached :: "state_c \<Rightarrow> bool" where
  "never_cached s = list_all (\<lambda>e. averageRating (snd e) = None) (rideStorage s)"

text \<open>
  A run of review submissions, each with the identifier and the time the host gave it.
\<close>

fun addRideReviews_c :: "(RideReviewPayload \<times> string \<times> nat64) list \<Rightarrow> state_c \<Rightarrow> state_c" where
  "addRideReviews_c [] s = s"
| "addRideReviews_c ((payload, newId, now) # rest) s =
     addRideReviews_c rest (snd (addRideReview_c payload newId now s))"

fun addRideReviews_r :: "(RideReviewPayload \<times> string \<times> nat64) list \<Rightarrow> state_r \<Rightarrow> state_r" where
  "addRideReviews_r [] s = s"
| "addRideReviews_r ((payload, newId, now) # rest) s =
     addRideReviews_r rest (snd (addRideReview_r payload newId now s))"

text \<open>The arithmetic mean of a non-empty list of ratings.\<close>

definition mean :: "number list \<Rightarrow> number" where
  "mean xs = divide_by_length (sum_list xs) (length xs)"

text \<open>The ratings submitted for a ride in a run.\<close>

definition ratings_for :: "string \<Rightarrow> (RideReviewPayload \<times> string \<times> nat64) list \<Rightarrow> number list" where
  "ratings_for rid subs = map (\<lambda>x. rating (fst x)) (filter (\<lambda>x. rideId (fst x) = rid) subs)"

subsection \<open>The generic update that a field-scoped update stands for\<close>

text \<open>
  In the words of the specification, a field-scoped update is the generic update called
  with a payload that carries the existing record's values for all other fields and the new
  value for the targeted field. \<open>carried set_field other ident s\<close> is that payload:
  \<open>set_field\<close> puts the new value into the payload read off the record stored under
  \<open>ident\<close>. When nothing is stored under \<open>ident\<close> there is no such record; \<open>other\<close> is the
  payload the caller passes then.
\<close>

definition carried ::
  "(RidePayload \<Rightarrow> RidePayload) \<Rightarrow> RidePayload \<Rightarrow> string \<Rightarrow> ('a RideRecord_scheme) Storage
     \<Rightarrow> RidePayload" where
  "carried set_field other ident s =
     (case btm_get (rideStorage s) ident of
        Some record \<Rightarrow> set_field (RidePayload.truncate record)
      | None \<Rightarrow> set_field other)"

text \<open>The record that \<^verbatim>\<open>addRideReview\<close> builds from a submission.\<close>

definition review_record :: "RideReviewPayload \<times> string \<times> nat64 \<Rightarrow> RideReviewRecord" where
  "review_record x =
     \<lparr>rideId = rideId (fst x), userId = userId (fst x), rating = rating (fst x),
      comment = comment (fst x), RideReviewRecord.id' = fst (snd x),
      RideReviewRecord.createdAt = snd (snd x)\<rparr>"

subsection \<open>Sample data\<close>

definition commute :: RidePayload where
  "commute = \<lparr>providerId = ''p1'', date = ''2024-01-10'', startTime = ''08:00'',
              endTime = ''09:00'', startLocation = ''A'', endLocation = ''B'',
              availableSeats = Num 3, description = ''commute''\<rparr>"

definition review_of :: "string \<Rightarrow> number \<Rightarrow> RideReviewPayload" where
  "review_of rid n = \<lparr>rideId = rid, userId = ''u1'', rating = n, comment = ''fine''\<rparr>"

text \<open>The ride \<open>commute\<close> stored as \<open>r1\<close>, in each variant.\<close>

definition one_ride_c :: state_c where
  "one_ride_c = snd (addRide_c commute ''r1'' 1 initial)"

definition one_ride_r :: state_r where
  "one_ride_r = snd (addRide_r commute ''r1'' 1 initial)"

definition two_rides_r :: state_r where
  "two_rides_r = snd (addRide_r (commute\<lparr>availableSeats := Num 1\<rparr>) ''r2'' 2 one_ride_r)"

text \<open>
  A stored ride with a review of it. In the cached variant the review is submitted before
  the ride is added, since \<^verbatim>\<open>addRideReview\<close> throws once the ride is stored.
\<close>

definition one_review_c :: state_c where
  "one_review_c =
     snd (addRide_c commute ''r1'' 2 (snd (addRideReview_c (review_of ''r1'' (Num 5)) ''a'' 1 initial)))"

definition one_review_r :: state_r where
  "one_review_r = snd (addRideReview_r (review_of ''r1'' (Num 5)) ''a'' 2 one_ride_r)"

section \<open>Properties of the store\<close>

lemma btm_get_insert:
  "btm_get (btm_insert k v m) k' = (if k' = k then Some v else btm_get m k')"
  by (induction m) (auto simp: btm_get_def)

lemma btm_insert_fresh:
  "btm_get m k = None \<Longrightarrow> btm_insert k v m = m @ [(k, v)]"
  by (induction m) (auto simp: btm_get_def split: if_splits)

lemma btm_insert_mem: "(k, v) \<in> set (btm_insert k v m)"
  by (induction m) auto

lemma btm_insert_subset: "set (btm_insert k v m) \<subseteq> insert (k, v) (set m)"
  by (induction m) auto

lemma btm_insert_keeps: "e \<in> set m \<Longrightarrow> fst e \<noteq> k \<Longrightarrow> e \<in> set (btm_insert k v m)"
  by (induction m) auto

lemma btm_values_insert_mem: "v \<in> set (btm_values (btm_insert k v m))"
  using btm_insert_mem [of k v m] by (force simp: btm_values_def)

lemma btm_remove_fst: "fst (btm_remove m k) = btm_get m k"
  by (simp add: btm_remove_def btm_get_def)

lemma btm_get_remove:
  "btm_get (snd (btm_remove m k)) k' = (if k' = k then None else btm_get m k')"
  by (induction m) (auto simp: btm_remove_def btm_get_def)

lemma btm_remove_absent: "btm_get m k = None \<Longrightarrow> snd (btm_remove m k) = m"
  by (induction m) (auto simp: btm_remove_def btm_get_def split: if_splits)

lemma btm_get_mem: "btm_get m k = Some v \<Longrightarrow> (k, v) \<in> set m"
  by (simp add: btm_get_def map_of_SomeD)

lemma btm_get_value: "btm_get m k = Some v \<Longrightarrow> v \<in> set (btm_values m)"
  using btm_get_mem [of m k v] by (force simp: btm_values_def)

section \<open>Queries\<close>

lemma frame_c:
  "snd (getRide_c ident s) = s"
  "snd (getAllRides_c s) = s"
  "snd (getRideReviews_c rid s) = s"
  "snd (getRideAverageRating_c rid s) = s"
  "snd (filterRides criteria s) = s"
  "snd (getRidesByProvider_c pid s) = s"
  by (simp_all add: getRide_c_def getAllRides_c_def getRideReviews_c_def
      getRideAverageRating_c_def filterRides_def getRidesByProvider_c_def
      split: option.splits)

lemma frame_r:
  "snd (getRide_r ident s) = s"
  "snd (getAllRides_r s) = s"
  "snd (getRideReviews_r rid s) = s"
  "snd (getRideAverageRating_r rid s) = s"
  "snd (searchRidesByStartLocation loc s) = s"
  "snd (searchRidesByEndLocation loc s) = s"
  "snd (filterRidesByDateRange d1 d2 s) = s"
  "snd (filterRidesByAvailableSeats k s) = s"
  "snd (getRidesByProvider_r pid s) = s"
  by (simp_all add: getRide_r_def getAllRides_r_def getRideReviews_r_def
      getRideAverageRating_r_def searchRidesByStartLocation_def searchRidesByEndLocation_def
      filterRidesByDateRange_def filterRidesByAvailableSeats_def getRidesByProvider_r_def
      Let_def split: option.splits)

text \<open>
  Claim C7. Every read-only operation of either variant (\<^verbatim>\<open>getRide\<close>, \<^verbatim>\<open>getAllRides\<close>,
  \<^verbatim>\<open>getRideReviews\<close>, \<^verbatim>\<open>getRideAverageRating\<close>, \<^verbatim>\<open>filterRides\<close>, \<^verbatim>\<open>getRidesByProvider\<close>, the two
  location searches and the two range filters) returns the ride store and the review
  store it was given, for every argument and every state.
\<close>

theorem read_only_operations_frame:
  "snd (getRide_c ident sc) = sc \<and> snd (getAllRides_c sc) = sc
   \<and> snd (getRideReviews_c rid sc) = sc \<and> snd (getRideAverageRating_c rid sc) = sc
   \<and> snd (filterRides criteria sc) = sc \<and> snd (getRidesByProvider_c pid sc) = sc
   \<and> snd (getRide_r ident sr) = sr \<and> snd (getAllRides_r sr) = sr
   \<and> snd (getRideReviews_r rid sr) = sr \<and> snd (getRideAverageRating_r rid sr) = sr
   \<and> snd (searchRidesByStartLocation loc sr) = sr
   \<and> snd (searchRidesByEndLocation loc sr) = sr
   \<and> snd (filterRidesByDateRange d1 d2 sr) = sr
   \<and> snd (filterRidesByAvailableSeats k sr) = sr
   \<and> snd (getRidesByProvider_r pid sr) = sr"
  by (simp add: frame_c frame_r)

text \<open>
  Claim C4. For every state and every number \<open>k\<close> (the integers among them),
  \<^verbatim>\<open>filterRidesByAvailableSeats\<close> succeeds; its result is the stored rides with
  \<open>availableSeats \<ge> k\<close>, each such ride and no other; a second call on the state the first
  one returns gives the same result.
\<close>

theorem filterRidesByAvailableSeats_exact:
  "\<exists>rides. filterRidesByAvailableSeats k s = (Ok rides, s)
     \<and> rides = filter (\<lambda>ride. k \<le> availableSeats ride) (btm_values (rideStorage s))
     \<and> set rides = {ride \<in> set (btm_values (rideStorage s)). k \<le> availableSeats ride}
     \<and> filterRidesByAvailableSeats k (snd (filterRidesByAvailableSeats k s))
         = filterRidesByAvailableSeats k s"
  by (simp add: filterRidesByAvailableSeats_def)

lemma two_rides_r_eval:
  "two_rides_r = \<lparr>rideStorage =
      [(''r1'', \<lparr>providerId = ''p1'', date = ''2024-01-10'', startTime = ''08:00'',
              endTime = ''09:00'', startLocation = ''A'', endLocation = ''B'',
              availableSeats = Num 3, description = ''commute'',
              id' = ''r1'', createdAt = 1, updatedAt = None\<rparr>),
       (''r2'', \<lparr>providerId = ''p1'', date = ''2024-01-10'', startTime = ''08:00'',
              endTime = ''09:00'', startLocation = ''A'', endLocation = ''B'',
              availableSeats = Num 1, description = ''commute'',
              id' = ''r2'', createdAt = 2, updatedAt = None\<rparr>)],
     rideReviewStorage = []\<rparr>"
  by (simp add: two_rides_r_def one_ride_r_def addRide_r_def initial_def commute_def Let_def)

theorem filterRidesByAvailableSeats_exact_witness:
  "\<exists>rides. filterRidesByAvailableSeats (Num 2) two_rides_r = (Ok rides, two_rides_r)
     \<and> map id' rides = [''r1'']"
  using filterRidesByAvailableSeats_exact [of "Num 2" two_rides_r]
  by (simp add: two_rides_r_eval btm_values_def)

text \<open>
  Claim C10. \<^verbatim>\<open>getRideReviews\<close> never returns an error: in either variant, for every
  string, it succeeds with the stored reviews whose \<open>rideId\<close> is that string, and with the
  empty list exactly when there is none. Whether a ride of that identifier is stored plays
  no part.
\<close>

theorem getRideReviews_never_fails:
  "(\<exists>reviews. getRideReviews_c rid sc = (Ok reviews, sc)
      \<and> reviews = filter (\<lambda>review. rideId review = rid) (btm_values (rideReviewStorage sc))
      \<and> set reviews = {review \<in> set (btm_values (rideReviewStorage sc)). rideId review = rid}
      \<and> (reviews = [] \<longleftrightarrow> (\<forall>review \<in> set (btm_values (rideReviewStorage sc)). rideId review \<noteq> rid)))
   \<and> (\<exists>reviews. getRideReviews_r rid sr = (Ok reviews, sr)
      \<and> reviews = filter (\<lambda>review. rideId review = rid) (btm_values (rideReviewStorage sr))
      \<and> set reviews = {review \<in> set (btm_values (rideReviewStorage sr)). rideId review = rid}
      \<and> (reviews = [] \<longleftrightarrow> (\<forall>review \<in> set (btm_values (rideReviewStorage sr)). rideId review \<noteq> rid)))"
  by (auto simp: getRideReviews_c_def getRideReviews_r_def filter_empty_conv)

theorem getRideReviews_never_fails_witness:
  "btm_values (rideReviewStorage one_ride_c) = []
   \<and> getRideReviews_c ''r9'' one_ride_c = (Ok [], one_ride_c)
   \<and> btm_values (rideReviewStorage one_ride_r) = []
   \<and> getRideReviews_r ''r9'' one_ride_r = (Ok [], one_ride_r)"
proof -
  have c: "rideReviewStorage one_ride_c = []"
    by (simp add: one_ride_c_def addRide_c_def commute_def initial_def Let_def
        falsy_string_def falsy_number_def)
  have r: "rideReviewStorage one_ride_r = []"
    by (simp add: one_ride_r_def addRide_r_def initial_def Let_def)
  from c r getRideReviews_never_fails [of "''r9''" one_ride_c one_ride_r]
  show ?thesis
    by (auto simp: btm_values_def)
qed

section \<open>Adding a ride\<close>

text \<open>
  Claim C2, as stated, fails on the recompute variant, whose \<^verbatim>\<open>addRide\<close> has no check at
  all: a payload with an empty \<open>providerId\<close> is stored.
\<close>

theorem addRide_r_accepts_empty_counterexample:
  "providerId (commute\<lparr>providerId := ''''\<rparr>) = ''''
   \<and> fst (addRide_r (commute\<lparr>providerId := ''''\<rparr>) ''r1'' 1 initial)
       = Ok \<lparr>providerId = '''', date = ''2024-01-10'', startTime = ''08:00'',
              endTime = ''09:00'', startLocation = ''A'', endLocation = ''B'',
              availableSeats = Num 3, description = ''commute'',
              id' = ''r1'', createdAt = 1, updatedAt = None\<rparr>
   \<and> map fst (rideStorage (snd (addRide_r (commute\<lparr>providerId := ''''\<rparr>) ''r1'' 1 initial)))
       = [''r1'']"
  by (simp add: addRide_r_def commute_def initial_def Let_def)

lemma addRide_c_invalid:
  "providerId payload = [] \<or> date payload = [] \<or> startTime payload = []
   \<or> endTime payload = [] \<or> startLocation payload = [] \<or> endLocation payload = []
   \<or> availableSeats payload = Num 0 \<or> availableSeats payload = NaN
      \<or> description payload = []
   \<Longrightarrow> addRide_c payload newId now s = (Err InvalidPayload, s)"
  by (auto simp: addRide_c_def falsy_string_def falsy_number_def)

lemma addRide_c_valid:
  assumes "providerId payload \<noteq> []" "date payload \<noteq> []" "startTime payload \<noteq> []"
    "endTime payload \<noteq> []" "startLocation payload \<noteq> []" "endLocation payload \<noteq> []"
    "availableSeats payload \<noteq> Num 0" "availableSeats payload \<noteq> NaN" "description payload \<noteq> []"
  shows "\<exists>record. addRide_c payload newId now s
            = (Ok record, s\<lparr>rideStorage := btm_insert newId record (rideStorage s)\<rparr>)
          \<and> id' record = newId \<and> createdAt record = now \<and> updatedAt record = None
          \<and> averageRating record = None \<and> RidePayload.truncate record = payload
          \<and> btm_get (rideStorage (snd (addRide_c payload newId now s))) newId = Some record"
  using assms
  by (simp add: addRide_c_def falsy_string_def falsy_number_def Let_def btm_get_insert
      RidePayload.truncate_def)

lemma addRide_r_always:
  "\<exists>record. addRide_r payload newId now s
            = (Ok record, s\<lparr>rideStorage := btm_insert newId record (rideStorage s)\<rparr>)
          \<and> id' record = newId \<and> createdAt record = now \<and> updatedAt record = None
          \<and> RidePayload.truncate record = payload
          \<and> btm_get (rideStorage (snd (addRide_r payload newId now s))) newId = Some record"
  by (simp add: addRide_r_def Let_def btm_get_insert RidePayload.truncate_def)

text \<open>
  Claim C2, amended. In the cached variant \<^verbatim>\<open>addRide\<close> returns \<open>InvalidPayload\<close> and leaves
  the state as it was when a string field of the payload is empty or \<open>availableSeats\<close> is
  zero or NaN; otherwise it succeeds, and the record it returns and stores carries the payload,
  the generated identifier and the creation time, with \<open>updatedAt\<close> and \<open>averageRating\<close>
  empty. In the recompute variant \<^verbatim>\<open>addRide\<close> succeeds for every payload, in the same way.
\<close>

theorem addRide_validates_in_cached_variant:
  "((providerId payload = [] \<or> date payload = [] \<or> startTime payload = []
      \<or> endTime payload = [] \<or> startLocation payload = [] \<or> endLocation payload = []
      \<or> availableSeats payload = Num 0 \<or> availableSeats payload = NaN
      \<or> description payload = [])
     \<longrightarrow> addRide_c payload newId now sc = (Err InvalidPayload, sc))
   \<and> (providerId payload \<noteq> [] \<and> date payload \<noteq> [] \<and> startTime payload \<noteq> []
      \<and> endTime payload \<noteq> [] \<and> startLocation payload \<noteq> [] \<and> endLocation payload \<noteq> []
      \<and> availableSeats payload \<noteq> Num 0 \<and> availableSeats payload \<noteq> NaN
      \<and> description payload \<noteq> []
     \<longrightarrow> (\<exists>record. addRide_c payload newId now sc
            = (Ok record, sc\<lparr>rideStorage := btm_insert newId record (rideStorage sc)\<rparr>)
          \<and> id' record = newId \<and> createdAt record = now \<and> updatedAt record = None
          \<and> averageRating record = None \<and> RidePayload.truncate record = payload
          \<and> btm_get (rideStorage (snd (addRide_c payload newId now sc))) newId = Some record))
   \<and> (\<exists>record. addRide_r payload newId now sr
            = (Ok record, sr\<lparr>rideStorage := btm_insert newId record (rideStorage sr)\<rparr>)
          \<and> id' record = newId \<and> createdAt record = now \<and> updatedAt record = None
          \<and> RidePayload.truncate record = payload
          \<and> btm_get (rideStorage (snd (addRide_r payload newId now sr))) newId = Some record)"
  using addRide_c_invalid [of payload newId now sc] addRide_c_valid [of payload newId now sc]
    addRide_r_always [of payload newId now sr]
  by blast

theorem addRide_validates_in_cached_variant_witness:
  "availableSeats (commute\<lparr>availableSeats := Num 0\<rparr>) = Num 0
   \<and> addRide_c (commute\<lparr>availableSeats := Num 0\<rparr>) ''r1'' 1 initial
       = (Err InvalidPayload, initial)
   \<and> availableSeats (commute\<lparr>availableSeats := NaN\<rparr>) = NaN
   \<and> addRide_c (commute\<lparr>availableSeats := NaN\<rparr>) ''r1'' 1 initial
       = (Err InvalidPayload, initial)
   \<and> (\<exists>record. fst (addRide_c commute ''r1'' 1 initial) = Ok record
        \<and> id' record = ''r1'' \<and> RidePayload.truncate record = commute)
   \<and> (\<exists>record. fst (addRide_r commute ''r1'' 1 initial) = Ok record
        \<and> id' record = ''r1'' \<and> RidePayload.truncate record = commute)"
proof -
  have bad: "availableSeats (commute\<lparr>availableSeats := Num 0\<rparr>) = Num 0"
    "availableSeats (commute\<lparr>availableSeats := NaN\<rparr>) = NaN"
    by simp_all
  have good: "providerId commute \<noteq> [] \<and> date commute \<noteq> [] \<and> startTime commute \<noteq> []
      \<and> endTime commute \<noteq> [] \<and> startLocation commute \<noteq> [] \<and> endLocation commute \<noteq> []
      \<and> availableSeats commute \<noteq> Num 0 \<and> availableSeats commute \<noteq> NaN
      \<and> description commute \<noteq> []"
    by (simp add: commute_def)
  from bad good
    addRide_validates_in_cached_variant
      [of "commute\<lparr>availableSeats := Num 0\<rparr>" "''r1''" 1 initial initial]
    addRide_validates_in_cached_variant
      [of "commute\<lparr>availableSeats := NaN\<rparr>" "''r1''" 1 initial initial]
    addRide_validates_in_cached_variant [of commute "''r1''" 1 initial initial]
  show ?thesis
    by (metis fst_conv)
qed

section \<open>Rides are stored under their own identifier\<close>

lemma list_all_btm_insert:
  "list_all P m \<Longrightarrow> P (k, v) \<Longrightarrow> list_all P (btm_insert k v m)"
  by (induction m) auto

lemma keyed_insert: "keyed m \<Longrightarrow> id' v = k \<Longrightarrow> keyed (btm_insert k v m)"
  by (simp add: keyed_def list_all_btm_insert)

lemma keyed_remove: "keyed m \<Longrightarrow> keyed (snd (btm_remove m k))"
  by (simp add: keyed_def btm_remove_def list_all_iff)

lemma keyed_get: "keyed m \<Longrightarrow> btm_get m k = Some r \<Longrightarrow> id' r = k"
  using btm_get_mem [of m k r] by (auto simp: keyed_def list_all_iff)

lemma updateRideAverageRating_state: "snd (updateRideAverageRating rid n s) = s"
  by (simp add: updateRideAverageRating_def split: option.splits)

lemma addRideReview_c_rideStorage:
  "rideStorage (snd (addRideReview_c payload newId now s)) = rideStorage s"
  by (simp add: addRideReview_c_def updateRideAverageRating_def Let_def split: option.splits)

lemma keyed_addRide_c:
  "keyed (rideStorage s) \<Longrightarrow> keyed (rideStorage (snd (addRide_c payload newId now s)))"
  by (simp add: addRide_c_def Let_def keyed_insert)

lemma keyed_updateRide_c:
  "keyed (rideStorage s) \<Longrightarrow> keyed (rideStorage (snd (updateRide_c ident obj now s)))"
  by (auto simp: updateRide_c_def Let_def spread_def keyed_insert split: option.splits)

lemma keyed_deleteRide_c:
  "keyed (rideStorage s) \<Longrightarrow> keyed (rideStorage (snd (deleteRide_c ident s)))"
  using keyed_remove [of "rideStorage s" ident]
  by (auto simp: deleteRide_c_def split: prod.splits option.splits)

lemma keyed_addRideReview_c:
  "keyed (rideStorage s) \<Longrightarrow> keyed (rideStorage (snd (addRideReview_c payload newId now s)))"
  by (simp add: addRideReview_c_rideStorage)

lemma reachable_c_keyed: "reachable_c s \<Longrightarrow> keyed (rideStorage s)"
proof (induction rule: reachable_c.induct)
  case init_c
  show ?case by (simp add: initial_def keyed_def)
next
  case (addRide_c s payload newId now)
  then show ?case by (simp add: keyed_addRide_c)
next
  case (updateRide_c s ident obj now)
  then show ?case by (simp add: keyed_updateRide_c)
next
  case (deleteRide_c s ident)
  then show ?case by (simp add: keyed_deleteRide_c)
next
  case (addRideReview_c s review newId now)
  then show ?case by (simp add: keyed_addRideReview_c)
qed

lemma keyed_scoped_r:
  assumes "keyed (rideStorage s)"
  shows "keyed (rideStorage (snd (addRide_r payload newId now s)))"
    "keyed (rideStorage (snd (updateRide_r ident payload now s)))"
    "keyed (rideStorage (snd (addRideReview_r review newId now s)))"
    "keyed (rideStorage (snd (updateRideAvailableSeats_r ident n now s)))"
    "keyed (rideStorage (snd (updateRideStartLocation_r ident v now s)))"
    "keyed (rideStorage (snd (updateRideEndLocation_r ident v now s)))"
    "keyed (rideStorage (snd (updateRideDate_r ident v now s)))"
    "keyed (rideStorage (snd (updateRideStartTime_r ident v now s)))"
    "keyed (rideStorage (snd (updateRideEndTime_r ident v now s)))"
  using assms
  by (auto simp: addRide_r_def updateRide_r_def addRideReview_r_def
      updateRideAvailableSeats_r_def updateRideStartLocation_r_def
      updateRideEndLocation_r_def updateRideDate_r_def updateRideStartTime_r_def
      updateRideEndTime_r_def Let_def spread_def keyed_insert split: option.splits)

lemma keyed_deleteRide_r:
  "keyed (rideStorage s) \<Longrightarrow> keyed (rideStorage (snd (deleteRide_r ident s)))"
  using keyed_remove [of "rideStorage s" ident]
  by (auto simp: deleteRide_r_def split: prod.splits option.splits)

lemma reachable_r_keyed: "reachable_r s \<Longrightarrow> keyed (rideStorage s)"
  by (induction rule: reachable_r.induct)
    (simp_all add: keyed_scoped_r keyed_deleteRide_r, simp add: initial_def keyed_def)


subsection \<open>The sample states\<close>

lemma one_ride_c_eval:
  "one_ride_c = \<lparr>rideStorage =
      [(''r1'', \<lparr>providerId = ''p1'', date = ''2024-01-10'', startTime = ''08:00'',
              endTime = ''09:00'', startLocation = ''A'', endLocation = ''B'',
              availableSeats = Num 3, description = ''commute'',
              id' = ''r1'', createdAt = 1, updatedAt = None, averageRating = None\<rparr>)],
     rideReviewStorage = []\<rparr>"
  by (simp add: one_ride_c_def addRide_c_def initial_def commute_def Let_def
      falsy_string_def falsy_number_def)

lemma one_ride_r_eval:
  "one_ride_r = \<lparr>rideStorage =
      [(''r1'', \<lparr>providerId = ''p1'', date = ''2024-01-10'', startTime = ''08:00'',
              endTime = ''09:00'', startLocation = ''A'', endLocation = ''B'',
              availableSeats = Num 3, description = ''commute'',
              id' = ''r1'', createdAt = 1, updatedAt = None\<rparr>)],
     rideReviewStorage = []\<rparr>"
  by (simp add: one_ride_r_def addRide_r_def initial_def commute_def Let_def)

lemma one_ride_c_reachable: "reachable_c one_ride_c"
  unfolding one_ride_c_def by (rule reachable_c.addRide_c [OF reachable_c.init_c])

lemma one_ride_r_reachable: "reachable_r one_ride_r"
  unfolding one_ride_r_def by (rule reachable_r.addRide_r [OF reachable_r.init_r])

subsection \<open>The generic update\<close>

lemma updateRide_c_absent:
  "btm_get (rideStorage s) ident = None
   \<Longrightarrow> updateRide_c ident obj now s = (Err (NotFound ident), s)"
  by (simp add: updateRide_c_def)

lemma updateRide_r_absent:
  "btm_get (rideStorage s) ident = None
   \<Longrightarrow> updateRide_r ident payload now s = (Err (NotFound ident), s)"
  by (simp add: updateRide_r_def)

lemma updateRide_c_present:
  assumes "keyed (rideStorage s)" "btm_get (rideStorage s) ident = Some record"
  shows "\<exists>updated. fst (updateRide_c ident (full payload) now s) = Ok updated
     \<and> btm_get (rideStorage (snd (updateRide_c ident (full payload) now s))) ident = Some updated
     \<and> RidePayload.truncate updated = payload \<and> updatedAt updated = Some now
     \<and> id' updated = ident \<and> createdAt updated = createdAt record
     \<and> averageRating updated = averageRating record
     \<and> rideReviewStorage (snd (updateRide_c ident (full payload) now s)) = rideReviewStorage s
     \<and> (\<forall>k. k \<noteq> ident \<longrightarrow>
          btm_get (rideStorage (snd (updateRide_c ident (full payload) now s))) k
            = btm_get (rideStorage s) k)"
  using assms keyed_get [OF assms]
  by (simp add: updateRide_c_def Let_def spread_def full_def btm_get_insert
      RidePayload.truncate_def)

lemma updateRide_r_present:
  assumes "keyed (rideStorage s)" "btm_get (rideStorage s) ident = Some record"
  shows "\<exists>updated. fst (updateRide_r ident payload now s) = Ok updated
     \<and> btm_get (rideStorage (snd (updateRide_r ident payload now s))) ident = Some updated
     \<and> RidePayload.truncate updated = payload \<and> updatedAt updated = Some now
     \<and> id' updated = ident \<and> createdAt updated = createdAt record
     \<and> rideReviewStorage (snd (updateRide_r ident payload now s)) = rideReviewStorage s
     \<and> (\<forall>k. k \<noteq> ident \<longrightarrow>
          btm_get (rideStorage (snd (updateRide_r ident payload now s))) k
            = btm_get (rideStorage s) k)"
  using assms keyed_get [OF assms]
  by (simp add: updateRide_r_def Let_def spread_def full_def btm_get_insert
      RidePayload.truncate_def)

text \<open>
  Claim C3. When no ride is stored under the identifier, \<^verbatim>\<open>updateRide\<close> returns \<open>NotFound\<close>
  and the state, both stores, is as it was. When a ride is stored under it, in a state the
  program can reach, \<^verbatim>\<open>updateRide\<close> succeeds; the record then stored under the identifier
  is the one returned: it has the payload's eight field values and \<open>updatedAt\<close> set to the
  time of the call, and keeps its identifier, creation time and cached average. The other
  rides and the reviews are untouched. Both variants.
\<close>

theorem updateRide_not_found_or_applied:
  "(btm_get (rideStorage sc) ident = None
      \<longrightarrow> updateRide_c ident (full payload) now sc = (Err (NotFound ident), sc))
   \<and> (btm_get (rideStorage sr) ident = None
      \<longrightarrow> updateRide_r ident payload now sr = (Err (NotFound ident), sr))
   \<and> (reachable_c sc \<and> btm_get (rideStorage sc) ident = Some rc
      \<longrightarrow> (\<exists>updated. fst (updateRide_c ident (full payload) now sc) = Ok updated
         \<and> btm_get (rideStorage (snd (updateRide_c ident (full payload) now sc))) ident
             = Some updated
         \<and> RidePayload.truncate updated = payload \<and> updatedAt updated = Some now
         \<and> id' updated = ident \<and> createdAt updated = createdAt rc
         \<and> averageRating updated = averageRating rc
         \<and> rideReviewStorage (snd (updateRide_c ident (full payload) now sc))
             = rideReviewStorage sc
         \<and> (\<forall>k. k \<noteq> ident \<longrightarrow>
              btm_get (rideStorage (snd (updateRide_c ident (full payload) now sc))) k
                = btm_get (rideStorage sc) k)))
   \<and> (reachable_r sr \<and> btm_get (rideStorage sr) ident = Some rr
      \<longrightarrow> (\<exists>updated. fst (updateRide_r ident payload now sr) = Ok updated
         \<and> btm_get (rideStorage (snd (updateRide_r ident payload now sr))) ident = Some updated
         \<and> RidePayload.truncate updated = payload \<and> updatedAt updated = Some now
         \<and> id' updated = ident \<and> createdAt updated = createdAt rr
         \<and> rideReviewStorage (snd (updateRide_r ident payload now sr)) = rideReviewStorage sr
         \<and> (\<forall>k. k \<noteq> ident \<longrightarrow>
              btm_get (rideStorage (snd (updateRide_r ident payload now sr))) k
                = btm_get (rideStorage sr) k)))"
proof (intro conjI impI)
  assume "btm_get (rideStorage sc) ident = None"
  then show "updateRide_c ident (full payload) now sc = (Err (NotFound ident), sc)"
    by (rule updateRide_c_absent)
next
  assume "btm_get (rideStorage sr) ident = None"
  then show "updateRide_r ident payload now sr = (Err (NotFound ident), sr)"
    by (rule updateRide_r_absent)
next
  assume a: "reachable_c sc \<and> btm_get (rideStorage sc) ident = Some rc"
  then have "keyed (rideStorage sc)"
    by (simp add: reachable_c_keyed)
  with a show "\<exists>updated. fst (updateRide_c ident (full payload) now sc) = Ok updated
         \<and> btm_get (rideStorage (snd (updateRide_c ident (full payload) now sc))) ident
             = Some updated
         \<and> RidePayload.truncate updated = payload \<and> updatedAt updated = Some now
         \<and> id' updated = ident \<and> createdAt updated = createdAt rc
         \<and> averageRating updated = averageRating rc
         \<and> rideReviewStorage (snd (updateRide_c ident (full payload) now sc))
             = rideReviewStorage sc
         \<and> (\<forall>k. k \<noteq> ident \<longrightarrow>
              btm_get (rideStorage (snd (updateRide_c ident (full payload) now sc))) k
                = btm_get (rideStorage sc) k)"
    using updateRide_c_present [of sc ident rc payload now] by blast
next
  assume a: "reachable_r sr \<and> btm_get (rideStorage sr) ident = Some rr"
  then have "keyed (rideStorage sr)"
    by (simp add: reachable_r_keyed)
  with a show "\<exists>updated. fst (updateRide_r ident payload now sr) = Ok updated
         \<and> btm_get (rideStorage (snd (updateRide_r ident payload now sr))) ident = Some updated
         \<and> RidePayload.truncate updated = payload \<and> updatedAt updated = Some now
         \<and> id' updated = ident \<and> createdAt updated = createdAt rr
         \<and> rideReviewStorage (snd (updateRide_r ident payload now sr)) = rideReviewStorage sr
         \<and> (\<forall>k. k \<noteq> ident \<longrightarrow>
              btm_get (rideStorage (snd (updateRide_r ident payload now sr))) k
                = btm_get (rideStorage sr) k)"
    using updateRide_r_present [of sr ident rr payload now] by blast
qed

theorem updateRide_not_found_or_applied_witness:
  "btm_get (rideStorage one_ride_c) ''r9'' = None
   \<and> updateRide_c ''r9'' (full commute) 5 one_ride_c = (Err (NotFound ''r9''), one_ride_c)
   \<and> btm_get (rideStorage one_ride_r) ''r9'' = None
   \<and> updateRide_r ''r9'' commute 5 one_ride_r = (Err (NotFound ''r9''), one_ride_r)
   \<and> reachable_c one_ride_c
   \<and> (\<exists>rc. btm_get (rideStorage one_ride_c) ''r1'' = Some rc)
   \<and> (\<exists>updated.
        fst (updateRide_c ''r1'' (full (commute\<lparr>availableSeats := Num 2\<rparr>)) 5 one_ride_c)
          = Ok updated
        \<and> availableSeats updated = Num 2 \<and> updatedAt updated = Some 5)
   \<and> reachable_r one_ride_r
   \<and> (\<exists>rr. btm_get (rideStorage one_ride_r) ''r1'' = Some rr)
   \<and> (\<exists>updated.
        fst (updateRide_r ''r1'' (commute\<lparr>availableSeats := Num 2\<rparr>) 5 one_ride_r) = Ok updated
        \<and> availableSeats updated = Num 2 \<and> updatedAt updated = Some 5)"
proof -
  have n: "btm_get (rideStorage one_ride_c) ''r9'' = None"
    "btm_get (rideStorage one_ride_r) ''r9'' = None"
    by (simp_all add: one_ride_c_eval one_ride_r_eval btm_get_def)
  obtain rc rr where p: "btm_get (rideStorage one_ride_c) ''r1'' = Some rc"
    "btm_get (rideStorage one_ride_r) ''r1'' = Some rr"
    by (simp add: one_ride_c_eval one_ride_r_eval btm_get_def)
  note t1 = updateRide_not_found_or_applied
    [of one_ride_c "''r9''" commute 5 one_ride_r]
  note t2 = updateRide_not_found_or_applied
    [of one_ride_c "''r1''" "commute\<lparr>availableSeats := Num 2\<rparr>" 5 one_ride_r rc rr]
  have e: "RidePayload.truncate u = commute\<lparr>availableSeats := Num 2\<rparr> \<Longrightarrow> availableSeats u = Num 2"
    for u :: "'a RidePayload_scheme"
    by (cases u) (simp add: RidePayload.truncate_def commute_def)
  from n p t1 t2 one_ride_c_reachable one_ride_r_reachable show ?thesis
    by (auto dest: e)
qed

section \<open>Deleting a ride\<close>

lemma deleteRide_c_present:
  assumes "btm_get (rideStorage s) ident = Some record"
  shows "fst (deleteRide_c ident s) = Ok record"
    "fst (getRide_c ident (snd (deleteRide_c ident s))) = Err (NotFound ident)"
    "rideReviewStorage (snd (deleteRide_c ident s)) = rideReviewStorage s"
    "fst (getRideReviews_c ident (snd (deleteRide_c ident s))) = fst (getRideReviews_c ident s)"
proof -
  have d: "deleteRide_c ident s
      = (Ok record, s\<lparr>rideStorage := snd (btm_remove (rideStorage s) ident)\<rparr>)"
    using assms by (simp add: deleteRide_c_def btm_remove_def btm_get_def)
  show "fst (deleteRide_c ident s) = Ok record"
    by (simp add: d)
  show "fst (getRide_c ident (snd (deleteRide_c ident s))) = Err (NotFound ident)"
    by (simp add: d getRide_c_def btm_get_remove)
  show "rideReviewStorage (snd (deleteRide_c ident s)) = rideReviewStorage s"
    by (simp add: d)
  show "fst (getRideReviews_c ident (snd (deleteRide_c ident s))) = fst (getRideReviews_c ident s)"
    by (simp add: d getRideReviews_c_def)
qed

lemma deleteRide_r_present:
  assumes "btm_get (rideStorage s) ident = Some record"
  shows "fst (deleteRide_r ident s) = Ok record"
    "fst (getRide_r ident (snd (deleteRide_r ident s))) = Err (NotFound ident)"
    "rideReviewStorage (snd (deleteRide_r ident s)) = rideReviewStorage s"
    "fst (getRideReviews_r ident (snd (deleteRide_r ident s))) = fst (getRideReviews_r ident s)"
proof -
  have d: "deleteRide_r ident s
      = (Ok record, s\<lparr>rideStorage := snd (btm_remove (rideStorage s) ident)\<rparr>)"
    using assms by (simp add: deleteRide_r_def btm_remove_def btm_get_def)
  show "fst (deleteRide_r ident s) = Ok record"
    by (simp add: d)
  show "fst (getRide_r ident (snd (deleteRide_r ident s))) = Err (NotFound ident)"
    by (simp add: d getRide_r_def btm_get_remove)
  show "rideReviewStorage (snd (deleteRide_r ident s)) = rideReviewStorage s"
    by (simp add: d)
  show "fst (getRideReviews_r ident (snd (deleteRide_r ident s))) = fst (getRideReviews_r ident s)"
    by (simp add: d getRideReviews_r_def)
qed

text \<open>
  Claim C6. When a ride is stored under the identifier, \<^verbatim>\<open>deleteRide\<close> succeeds with the
  stored record; \<^verbatim>\<open>getRide\<close> on the state it leaves fails with \<open>NotFound\<close>; the review store
  is as it was, and \<^verbatim>\<open>getRideReviews\<close> still returns every review whose \<open>rideId\<close> is the
  identifier. Both variants.
\<close>

theorem deleteRide_keeps_reviews:
  "(btm_get (rideStorage sc) ident = Some rc
      \<longrightarrow> fst (deleteRide_c ident sc) = Ok rc
        \<and> fst (getRide_c ident (snd (deleteRide_c ident sc))) = Err (NotFound ident)
        \<and> rideReviewStorage (snd (deleteRide_c ident sc)) = rideReviewStorage sc
        \<and> fst (getRideReviews_c ident (snd (deleteRide_c ident sc)))
            = Ok (filter (\<lambda>review. rideId review = ident)
                    (btm_values (rideReviewStorage sc))))
   \<and> (btm_get (rideStorage sr) ident = Some rr
      \<longrightarrow> fst (deleteRide_r ident sr) = Ok rr
        \<and> fst (getRide_r ident (snd (deleteRide_r ident sr))) = Err (NotFound ident)
        \<and> rideReviewStorage (snd (deleteRide_r ident sr)) = rideReviewStorage sr
        \<and> fst (getRideReviews_r ident (snd (deleteRide_r ident sr)))
            = Ok (filter (\<lambda>review. rideId review = ident)
                    (btm_values (rideReviewStorage sr))))"
  by (simp add: deleteRide_c_present deleteRide_r_present getRideReviews_c_def
      getRideReviews_r_def)

section \<open>Adding a review\<close>

lemma one_review_c_eval:
  "one_review_c = \<lparr>rideStorage =
      [(''r1'', \<lparr>providerId = ''p1'', date = ''2024-01-10'', startTime = ''08:00'',
              endTime = ''09:00'', startLocation = ''A'', endLocation = ''B'',
              availableSeats = Num 3, description = ''commute'',
              id' = ''r1'', createdAt = 2, updatedAt = None, averageRating = None\<rparr>)],
     rideReviewStorage =
      [(''a'', \<lparr>rideId = ''r1'', userId = ''u1'', rating = Num 5, comment = ''fine'',
             RideReviewRecord.id' = ''a'', RideReviewRecord.createdAt = 1\<rparr>)]\<rparr>"
  by (simp add: one_review_c_def addRideReview_c_def review_of_def addRide_c_def commute_def
      updateRideAverageRating_def initial_def btm_get_def Let_def falsy_string_def
      falsy_number_def)

lemma one_review_r_eval:
  "one_review_r = \<lparr>rideStorage =
      [(''r1'', \<lparr>providerId = ''p1'', date = ''2024-01-10'', startTime = ''08:00'',
              endTime = ''09:00'', startLocation = ''A'', endLocation = ''B'',
              availableSeats = Num 3, description = ''commute'',
              id' = ''r1'', createdAt = 1, updatedAt = None\<rparr>)],
     rideReviewStorage =
      [(''a'', \<lparr>rideId = ''r1'', userId = ''u1'', rating = Num 5, comment = ''fine'',
             RideReviewRecord.id' = ''a'', RideReviewRecord.createdAt = 2\<rparr>)]\<rparr>"
  by (simp add: one_review_r_def one_ride_r_eval addRideReview_r_def review_of_def Let_def)

theorem deleteRide_keeps_reviews_witness:
  "(\<exists>rc. btm_get (rideStorage one_review_c) ''r1'' = Some rc
        \<and> fst (deleteRide_c ''r1'' one_review_c) = Ok rc)
   \<and> fst (getRide_c ''r1'' (snd (deleteRide_c ''r1'' one_review_c))) = Err (NotFound ''r1'')
   \<and> (\<exists>reviews. fst (getRideReviews_c ''r1'' (snd (deleteRide_c ''r1'' one_review_c)))
          = Ok reviews \<and> map RideReviewRecord.id' reviews = [''a''])
   \<and> (\<exists>rr. btm_get (rideStorage one_review_r) ''r1'' = Some rr
        \<and> fst (deleteRide_r ''r1'' one_review_r) = Ok rr)
   \<and> fst (getRide_r ''r1'' (snd (deleteRide_r ''r1'' one_review_r))) = Err (NotFound ''r1'')
   \<and> (\<exists>reviews. fst (getRideReviews_r ''r1'' (snd (deleteRide_r ''r1'' one_review_r)))
          = Ok reviews \<and> map RideReviewRecord.id' reviews = [''a''])"
proof -
  obtain rc rr where p: "btm_get (rideStorage one_review_c) ''r1'' = Some rc"
    "btm_get (rideStorage one_review_r) ''r1'' = Some rr"
    by (simp add: one_review_c_eval one_review_r_eval btm_get_def)
  have v: "map RideReviewRecord.id' (filter (\<lambda>review. rideId review = ''r1'')
              (btm_values (rideReviewStorage one_review_c))) = [''a'']"
    "map RideReviewRecord.id' (filter (\<lambda>review. rideId review = ''r1'')
              (btm_values (rideReviewStorage one_review_r))) = [''a'']"
    by (simp_all add: one_review_c_eval one_review_r_eval btm_values_def)
  from p v deleteRide_keeps_reviews [of one_review_c "''r1''" rc one_review_r rr]
  show ?thesis
    by simp
qed

lemma number_le_not_less: "a \<le> b \<Longrightarrow> \<not> b < a"
  for a b :: number
  by (cases a; cases b) simp_all

lemma addRideReview_c_without_ride:
  assumes "rideId payload \<noteq> []" "userId payload \<noteq> []" "Num 1 \<le> rating payload"
    "rating payload \<le> Num 5" "comment payload \<noteq> []"
    "btm_get (rideStorage s) (rideId payload) = None"
  shows "\<exists>review. addRideReview_c payload newId now s
            = (Ok review,
               s\<lparr>rideReviewStorage := btm_insert newId review (rideReviewStorage s)\<rparr>)
          \<and> RideReviewPayload.truncate review = payload
          \<and> RideReviewRecord.id' review = newId \<and> RideReviewRecord.createdAt review = now
          \<and> (\<exists>reviews. fst (getRideReviews_c (rideId payload)
                             (snd (addRideReview_c payload newId now s))) = Ok reviews
                \<and> review \<in> set reviews)
          \<and> rideStorage (snd (addRideReview_c payload newId now s)) = rideStorage s"
  using assms number_le_not_less [of "Num 1" "rating payload"]
    number_le_not_less [of "rating payload" "Num 5"]
  by (simp add: addRideReview_c_def updateRideAverageRating_def Let_def falsy_string_def
      getRideReviews_c_def btm_values_insert_mem RideReviewPayload.truncate_def)

lemma addRideReview_r_always:
  "\<exists>review. addRideReview_r payload newId now s
            = (Ok review,
               s\<lparr>rideReviewStorage := btm_insert newId review (rideReviewStorage s)\<rparr>)
          \<and> RideReviewPayload.truncate review = payload
          \<and> RideReviewRecord.id' review = newId \<and> RideReviewRecord.createdAt review = now
          \<and> (\<exists>reviews. fst (getRideReviews_r (rideId payload)
                             (snd (addRideReview_r payload newId now s))) = Ok reviews
                \<and> review \<in> set reviews)
          \<and> rideStorage (snd (addRideReview_r payload newId now s)) = rideStorage s"
  by (simp add: addRideReview_r_def Let_def getRideReviews_r_def btm_values_insert_mem
      RideReviewPayload.truncate_def)

text \<open>
  Claim C8. For a valid review payload whose \<open>rideId\<close> is the key of no stored ride,
  \<^verbatim>\<open>addRideReview\<close> succeeds; the review is stored under the generated identifier and is
  among the reviews that \<^verbatim>\<open>getRideReviews\<close> then returns for that \<open>rideId\<close>; the ride store
  is as it was. In the recompute variant the same holds of every payload and every state,
  since that variant neither validates nor touches the ride store.
\<close>

theorem addRideReview_for_missing_ride:
  "(rideId payload \<noteq> [] \<and> userId payload \<noteq> [] \<and> Num 1 \<le> rating payload
      \<and> rating payload \<le> Num 5 \<and> comment payload \<noteq> []
      \<and> btm_get (rideStorage sc) (rideId payload) = None
     \<longrightarrow> (\<exists>review. addRideReview_c payload newId now sc
            = (Ok review,
               sc\<lparr>rideReviewStorage := btm_insert newId review (rideReviewStorage sc)\<rparr>)
          \<and> RideReviewPayload.truncate review = payload
          \<and> RideReviewRecord.id' review = newId \<and> RideReviewRecord.createdAt review = now
          \<and> (\<exists>reviews. fst (getRideReviews_c (rideId payload)
                             (snd (addRideReview_c payload newId now sc))) = Ok reviews
                \<and> review \<in> set reviews)
          \<and> rideStorage (snd (addRideReview_c payload newId now sc)) = rideStorage sc))
   \<and> (\<exists>review. addRideReview_r payload newId now sr
            = (Ok review,
               sr\<lparr>rideReviewStorage := btm_insert newId review (rideReviewStorage sr)\<rparr>)
          \<and> RideReviewPayload.truncate review = payload
          \<and> RideReviewRecord.id' review = newId \<and> RideReviewRecord.createdAt review = now
          \<and> (\<exists>reviews. fst (getRideReviews_r (rideId payload)
                             (snd (addRideReview_r payload newId now sr))) = Ok reviews
                \<and> review \<in> set reviews)
          \<and> rideStorage (snd (addRideReview_r payload newId now sr)) = rideStorage sr)"
  using addRideReview_c_without_ride [of payload sc newId now]
    addRideReview_r_always [of payload newId now sr]
  by blast

theorem addRideReview_for_missing_ride_witness:
  "btm_get (rideStorage one_ride_c) (rideId (review_of ''r9'' (Num 4))) = None
   \<and> (\<exists>review. fst (addRideReview_c (review_of ''r9'' (Num 4)) ''b'' 3 one_ride_c) = Ok review
        \<and> RideReviewRecord.id' review = ''b'')
   \<and> rideStorage (snd (addRideReview_c (review_of ''r9'' (Num 4)) ''b'' 3 one_ride_c))
       = rideStorage one_ride_c
   \<and> (\<exists>review. fst (addRideReview_r (review_of ''r9'' (Num 4)) ''b'' 3 one_ride_r) = Ok review
        \<and> RideReviewRecord.id' review = ''b'')"
proof -
  have h: "rideId (review_of ''r9'' (Num 4)) \<noteq> [] \<and> userId (review_of ''r9'' (Num 4)) \<noteq> []
      \<and> Num 1 \<le> rating (review_of ''r9'' (Num 4))
      \<and> rating (review_of ''r9'' (Num 4)) \<le> Num 5
      \<and> comment (review_of ''r9'' (Num 4)) \<noteq> []
      \<and> btm_get (rideStorage one_ride_c) (rideId (review_of ''r9'' (Num 4))) = None"
    by (simp add: review_of_def one_ride_c_eval btm_get_def)
  from h addRideReview_for_missing_ride
    [of "review_of ''r9'' (Num 4)" one_ride_c "''b''" 3 one_ride_r]
  show ?thesis
    by (metis fst_conv)
qed

section \<open>Field-scoped updates\<close>

lemma spread_full_truncate:
  "spread record (full (RidePayload.truncate record)) = record"
  by (simp add: spread_def full_def RidePayload.truncate_def)

lemma spread_one_field:
  "spread record (full ((RidePayload.truncate record)\<lparr>availableSeats := n\<rparr>))
     = record\<lparr>availableSeats := n\<rparr>"
  "spread record (full ((RidePayload.truncate record)\<lparr>startLocation := v\<rparr>))
     = record\<lparr>startLocation := v\<rparr>"
  "spread record (full ((RidePayload.truncate record)\<lparr>endLocation := v\<rparr>))
     = record\<lparr>endLocation := v\<rparr>"
  "spread record (full ((RidePayload.truncate record)\<lparr>date := v\<rparr>))
     = record\<lparr>date := v\<rparr>"
  "spread record (full ((RidePayload.truncate record)\<lparr>startTime := v\<rparr>))
     = record\<lparr>startTime := v\<rparr>"
  "spread record (full ((RidePayload.truncate record)\<lparr>endTime := v\<rparr>))
     = record\<lparr>endTime := v\<rparr>"
  by (simp_all add: spread_def full_def RidePayload.truncate_def)

lemma spread_single_literal:
  "spread record (no_fields\<lparr>PartialRidePayload.availableSeats := Some n\<rparr>)
     = record\<lparr>availableSeats := n\<rparr>"
  "spread record (no_fields\<lparr>PartialRidePayload.startLocation := Some v\<rparr>)
     = record\<lparr>startLocation := v\<rparr>"
  "spread record (no_fields\<lparr>PartialRidePayload.endLocation := Some v\<rparr>)
     = record\<lparr>endLocation := v\<rparr>"
  "spread record (no_fields\<lparr>PartialRidePayload.date := Some v\<rparr>)
     = record\<lparr>date := v\<rparr>"
  "spread record (no_fields\<lparr>PartialRidePayload.startTime := Some v\<rparr>)
     = record\<lparr>startTime := v\<rparr>"
  "spread record (no_fields\<lparr>PartialRidePayload.endTime := Some v\<rparr>)
     = record\<lparr>endTime := v\<rparr>"
  by (simp_all add: spread_def no_fields_def)

lemma scoped_r_refine:
  "updateRideAvailableSeats_r ident n now s
     = updateRide_r ident (carried (\<lambda>p. p\<lparr>availableSeats := n\<rparr>) other ident s) now s"
  "updateRideStartLocation_r ident v now s
     = updateRide_r ident (carried (\<lambda>p. p\<lparr>startLocation := v\<rparr>) other ident s) now s"
  "updateRideEndLocation_r ident v now s
     = updateRide_r ident (carried (\<lambda>p. p\<lparr>endLocation := v\<rparr>) other ident s) now s"
  "updateRideDate_r ident v now s
     = updateRide_r ident (carried (\<lambda>p. p\<lparr>date := v\<rparr>) other ident s) now s"
  "updateRideStartTime_r ident v now s
     = updateRide_r ident (carried (\<lambda>p. p\<lparr>startTime := v\<rparr>) other ident s) now s"
  "updateRideEndTime_r ident v now s
     = updateRide_r ident (carried (\<lambda>p. p\<lparr>endTime := v\<rparr>) other ident s) now s"
  by (simp_all add: updateRideAvailableSeats_r_def updateRideStartLocation_r_def
      updateRideEndLocation_r_def updateRideDate_r_def updateRideStartTime_r_def
      updateRideEndTime_r_def updateRide_r_def carried_def spread_one_field
      Let_def split: option.splits)

lemma scoped_c_refine:
  "updateRideAvailableSeats_c ident n now s
     = updateRide_c ident (full (carried (\<lambda>p. p\<lparr>availableSeats := n\<rparr>) other ident s)) now s"
  "updateRideStartLocation_c ident v now s
     = updateRide_c ident (full (carried (\<lambda>p. p\<lparr>startLocation := v\<rparr>) other ident s)) now s"
  "updateRideEndLocation_c ident v now s
     = updateRide_c ident (full (carried (\<lambda>p. p\<lparr>endLocation := v\<rparr>) other ident s)) now s"
  "updateRideDate_c ident v now s
     = updateRide_c ident (full (carried (\<lambda>p. p\<lparr>date := v\<rparr>) other ident s)) now s"
  "updateRideStartTime_c ident v now s
     = updateRide_c ident (full (carried (\<lambda>p. p\<lparr>startTime := v\<rparr>) other ident s)) now s"
  "updateRideEndTime_c ident v now s
     = updateRide_c ident (full (carried (\<lambda>p. p\<lparr>endTime := v\<rparr>) other ident s)) now s"
  by (simp_all add: updateRideAvailableSeats_c_def updateRideStartLocation_c_def
      updateRideEndLocation_c_def updateRideDate_c_def updateRideStartTime_c_def
      updateRideEndTime_c_def updateRide_c_def carried_def spread_one_field
      spread_single_literal Let_def split: option.splits)

lemma scoped_r_present:
  assumes "btm_get (rideStorage s) ident = Some record"
  shows "updateRideAvailableSeats_r ident n now s
     = (Ok (record\<lparr>availableSeats := n, updatedAt := Some now\<rparr>),
        s\<lparr>rideStorage := btm_insert (id' record)
             (record\<lparr>availableSeats := n, updatedAt := Some now\<rparr>) (rideStorage s)\<rparr>)"
  "updateRideStartLocation_r ident v now s
     = (Ok (record\<lparr>startLocation := v, updatedAt := Some now\<rparr>),
        s\<lparr>rideStorage := btm_insert (id' record)
             (record\<lparr>startLocation := v, updatedAt := Some now\<rparr>) (rideStorage s)\<rparr>)"
  "updateRideEndLocation_r ident v now s
     = (Ok (record\<lparr>endLocation := v, updatedAt := Some now\<rparr>),
        s\<lparr>rideStorage := btm_insert (id' record)
             (record\<lparr>endLocation := v, updatedAt := Some now\<rparr>) (rideStorage s)\<rparr>)"
  "updateRideDate_r ident v now s
     = (Ok (record\<lparr>date := v, updatedAt := Some now\<rparr>),
        s\<lparr>rideStorage := btm_insert (id' record)
             (record\<lparr>date := v, updatedAt := Some now\<rparr>) (rideStorage s)\<rparr>)"
  "updateRideStartTime_r ident v now s
     = (Ok (record\<lparr>startTime := v, updatedAt := Some now\<rparr>),
        s\<lparr>rideStorage := btm_insert (id' record)
             (record\<lparr>startTime := v, updatedAt := Some now\<rparr>) (rideStorage s)\<rparr>)"
  "updateRideEndTime_r ident v now s
     = (Ok (record\<lparr>endTime := v, updatedAt := Some now\<rparr>),
        s\<lparr>rideStorage := btm_insert (id' record)
             (record\<lparr>endTime := v, updatedAt := Some now\<rparr>) (rideStorage s)\<rparr>)"
  using assms
  by (simp_all add: updateRideAvailableSeats_r_def updateRideStartLocation_r_def
      updateRideEndLocation_r_def updateRideDate_r_def updateRideStartTime_r_def
      updateRideEndTime_r_def Let_def)

lemma scoped_c_present:
  assumes "btm_get (rideStorage s) ident = Some record"
  shows "updateRideAvailableSeats_c ident n now s
     = (Ok (record\<lparr>availableSeats := n, updatedAt := Some now\<rparr>),
        s\<lparr>rideStorage := btm_insert (id' record)
             (record\<lparr>availableSeats := n, updatedAt := Some now\<rparr>) (rideStorage s)\<rparr>)"
  "updateRideStartLocation_c ident v now s
     = (Ok (record\<lparr>startLocation := v, updatedAt := Some now\<rparr>),
        s\<lparr>rideStorage := btm_insert (id' record)
             (record\<lparr>startLocation := v, updatedAt := Some now\<rparr>) (rideStorage s)\<rparr>)"
  "updateRideEndLocation_c ident v now s
     = (Ok (record\<lparr>endLocation := v, updatedAt := Some now\<rparr>),
        s\<lparr>rideStorage := btm_insert (id' record)
             (record\<lparr>endLocation := v, updatedAt := Some now\<rparr>) (rideStorage s)\<rparr>)"
  "updateRideDate_c ident v now s
     = (Ok (record\<lparr>date := v, updatedAt := Some now\<rparr>),
        s\<lparr>rideStorage := btm_insert (id' record)
             (record\<lparr>date := v, updatedAt := Some now\<rparr>) (rideStorage s)\<rparr>)"
  "updateRideStartTime_c ident v now s
     = (Ok (record\<lparr>startTime := v, updatedAt := Some now\<rparr>),
        s\<lparr>rideStorage := btm_insert (id' record)
             (record\<lparr>startTime := v, updatedAt := Some now\<rparr>) (rideStorage s)\<rparr>)"
  "updateRideEndTime_c ident v now s
     = (Ok (record\<lparr>endTime := v, updatedAt := Some now\<rparr>),
        s\<lparr>rideStorage := btm_insert (id' record)
             (record\<lparr>endTime := v, updatedAt := Some now\<rparr>) (rideStorage s)\<rparr>)"
  using assms
  by (simp_all add: updateRideAvailableSeats_c_def updateRideStartLocation_c_def
      updateRideEndLocation_c_def updateRideDate_c_def updateRideStartTime_c_def
      updateRideEndTime_c_def updateRide_c_def spread_single_literal Let_def)

lemma scoped_r_absent:
  assumes "btm_get (rideStorage s) ident = None"
  shows "updateRideAvailableSeats_r ident n now s = (Err (NotFound ident), s)"
    "updateRideStartLocation_r ident v now s = (Err (NotFound ident), s)"
    "updateRideEndLocation_r ident v now s = (Err (NotFound ident), s)"
    "updateRideDate_r ident v now s = (Err (NotFound ident), s)"
    "updateRideStartTime_r ident v now s = (Err (NotFound ident), s)"
    "updateRideEndTime_r ident v now s = (Err (NotFound ident), s)"
  using assms
  by (simp_all add: updateRideAvailableSeats_r_def updateRideStartLocation_r_def
      updateRideEndLocation_r_def updateRideDate_r_def updateRideStartTime_r_def
      updateRideEndTime_r_def Let_def)

lemma scoped_c_absent:
  assumes "btm_get (rideStorage s) ident = None"
  shows "updateRideAvailableSeats_c ident n now s = (Err (NotFound ident), s)"
    "updateRideStartLocation_c ident v now s = (Err (NotFound ident), s)"
    "updateRideEndLocation_c ident v now s = (Err (NotFound ident), s)"
    "updateRideDate_c ident v now s = (Err (NotFound ident), s)"
    "updateRideStartTime_c ident v now s = (Err (NotFound ident), s)"
    "updateRideEndTime_c ident v now s = (Err (NotFound ident), s)"
  using assms
  by (simp_all add: updateRideAvailableSeats_c_def updateRideStartLocation_c_def
      updateRideEndLocation_c_def updateRideDate_c_def updateRideStartTime_c_def
      updateRideEndTime_c_def updateRide_c_def Let_def)

text \<open>
  Claim C9. Each field-scoped update (\<^verbatim>\<open>updateRideStartLocation\<close>, \<^verbatim>\<open>updateRideEndLocation\<close>,
  \<^verbatim>\<open>updateRideDate\<close>, \<^verbatim>\<open>updateRideStartTime\<close>, \<^verbatim>\<open>updateRideEndTime\<close>,
  \<^verbatim>\<open>updateRideAvailableSeats\<close>), called with a new value at some time, returns the same
  result and the same state as the generic \<^verbatim>\<open>updateRide\<close> called at that time with the
  payload that carries the stored record's values and the new value for the one field.
  On a stored ride the record returned and written back is the stored one with that field
  and \<open>updatedAt\<close> replaced; on a missing ride both calls return \<open>NotFound\<close> and the state as
  it was. Both variants.
\<close>

theorem field_scoped_updates_refine_updateRide:
  "updateRideAvailableSeats_r ident n now sr
       = updateRide_r ident (carried (\<lambda>p. p\<lparr>availableSeats := n\<rparr>) other ident sr) now sr
   \<and> updateRideStartLocation_r ident v now sr
       = updateRide_r ident (carried (\<lambda>p. p\<lparr>startLocation := v\<rparr>) other ident sr) now sr
   \<and> updateRideEndLocation_r ident v now sr
       = updateRide_r ident (carried (\<lambda>p. p\<lparr>endLocation := v\<rparr>) other ident sr) now sr
   \<and> updateRideDate_r ident v now sr
       = updateRide_r ident (carried (\<lambda>p. p\<lparr>date := v\<rparr>) other ident sr) now sr
   \<and> updateRideStartTime_r ident v now sr
       = updateRide_r ident (carried (\<lambda>p. p\<lparr>startTime := v\<rparr>) other ident sr) now sr
   \<and> updateRideEndTime_r ident v now sr
       = updateRide_r ident (carried (\<lambda>p. p\<lparr>endTime := v\<rparr>) other ident sr) now sr
   \<and> updateRideAvailableSeats_c ident n now sc
       = updateRide_c ident
           (full (carried (\<lambda>p. p\<lparr>availableSeats := n\<rparr>) other ident sc)) now sc
   \<and> updateRideStartLocation_c ident v now sc
       = updateRide_c ident
           (full (carried (\<lambda>p. p\<lparr>startLocation := v\<rparr>) other ident sc)) now sc
   \<and> updateRideEndLocation_c ident v now sc
       = updateRide_c ident
           (full (carried (\<lambda>p. p\<lparr>endLocation := v\<rparr>) other ident sc)) now sc
   \<and> updateRideDate_c ident v now sc
       = updateRide_c ident
           (full (carried (\<lambda>p. p\<lparr>date := v\<rparr>) other ident sc)) now sc
   \<and> updateRideStartTime_c ident v now sc
       = updateRide_c ident
           (full (carried (\<lambda>p. p\<lparr>startTime := v\<rparr>) other ident sc)) now sc
   \<and> updateRideEndTime_c ident v now sc
       = updateRide_c ident
           (full (carried (\<lambda>p. p\<lparr>endTime := v\<rparr>) other ident sc)) now sc
   \<and> (btm_get (rideStorage sr) ident = Some rr
      \<longrightarrow> updateRideAvailableSeats_r ident n now sr
          = (Ok (rr\<lparr>availableSeats := n, updatedAt := Some now\<rparr>),
             sr\<lparr>rideStorage := btm_insert (id' rr)
                  (rr\<lparr>availableSeats := n, updatedAt := Some now\<rparr>) (rideStorage sr)\<rparr>)
        \<and> updateRideStartLocation_r ident v now sr
          = (Ok (rr\<lparr>startLocation := v, updatedAt := Some now\<rparr>),
             sr\<lparr>rideStorage := btm_insert (id' rr)
                  (rr\<lparr>startLocation := v, updatedAt := Some now\<rparr>) (rideStorage sr)\<rparr>)
        \<and> updateRideEndLocation_r ident v now sr
          = (Ok (rr\<lparr>endLocation := v, updatedAt := Some now\<rparr>),
             sr\<lparr>rideStorage := btm_insert (id' rr)
                  (rr\<lparr>endLocation := v, updatedAt := Some now\<rparr>) (rideStorage sr)\<rparr>)
        \<and> updateRideDate_r ident v now sr
          = (Ok (rr\<lparr>date := v, updatedAt := Some now\<rparr>),
             sr\<lparr>rideStorage := btm_insert (id' rr)
                  (rr\<lparr>date := v, updatedAt := Some now\<rparr>) (rideStorage sr)\<rparr>)
        \<and> updateRideStartTime_r ident v now sr
          = (Ok (rr\<lparr>startTime := v, updatedAt := Some now\<rparr>),
             sr\<lparr>rideStorage := btm_insert (id' rr)
                  (rr\<lparr>startTime := v, updatedAt := Some now\<rparr>) (rideStorage sr)\<rparr>)
        \<and> updateRideEndTime_r ident v now sr
          = (Ok (rr\<lparr>endTime := v, updatedAt := Some now\<rparr>),
             sr\<lparr>rideStorage := btm_insert (id' rr)
                  (rr\<lparr>endTime := v, updatedAt := Some now\<rparr>) (rideStorage sr)\<rparr>))
   \<and> (btm_get (rideStorage sc) ident = Some rc
      \<longrightarrow> updateRideAvailableSeats_c ident n now sc
          = (Ok (rc\<lparr>availableSeats := n, updatedAt := Some now\<rparr>),
             sc\<lparr>rideStorage := btm_insert (id' rc)
                  (rc\<lparr>availableSeats := n, updatedAt := Some now\<rparr>) (rideStorage sc)\<rparr>)
        \<and> updateRideStartLocation_c ident v now sc
          = (Ok (rc\<lparr>startLocation := v, updatedAt := Some now\<rparr>),
             sc\<lparr>rideStorage := btm_insert (id' rc)
                  (rc\<lparr>startLocation := v, updatedAt := Some now\<rparr>) (rideStorage sc)\<rparr>)
        \<and> updateRideEndLocation_c ident v now sc
          = (Ok (rc\<lparr>endLocation := v, updatedAt := Some now\<rparr>),
             sc\<lparr>rideStorage := btm_insert (id' rc)
                  (rc\<lparr>endLocation := v, updatedAt := Some now\<rparr>) (rideStorage sc)\<rparr>)
        \<and> updateRideDate_c ident v now sc
          = (Ok (rc\<lparr>date := v, updatedAt := Some now\<rparr>),
             sc\<lparr>rideStorage := btm_insert (id' rc)
                  (rc\<lparr>date := v, updatedAt := Some now\<rparr>) (rideStorage sc)\<rparr>)
        \<and> updateRideStartTime_c ident v now sc
          = (Ok (rc\<lparr>startTime := v, updatedAt := Some now\<rparr>),
             sc\<lparr>rideStorage := btm_insert (id' rc)
                  (rc\<lparr>startTime := v, updatedAt := Some now\<rparr>) (rideStorage sc)\<rparr>)
        \<and> updateRideEndTime_c ident v now sc
          = (Ok (rc\<lparr>endTime := v, updatedAt := Some now\<rparr>),
             sc\<lparr>rideStorage := btm_insert (id' rc)
                  (rc\<lparr>endTime := v, updatedAt := Some now\<rparr>) (rideStorage sc)\<rparr>))
   \<and> (btm_get (rideStorage sr) ident = None
      \<longrightarrow> updateRideAvailableSeats_r ident n now sr = (Err (NotFound ident), sr)
        \<and> updateRideStartLocation_r ident v now sr = (Err (NotFound ident), sr)
        \<and> updateRideEndLocation_r ident v now sr = (Err (NotFound ident), sr)
        \<and> updateRideDate_r ident v now sr = (Err (NotFound ident), sr)
        \<and> updateRideStartTime_r ident v now sr = (Err (NotFound ident), sr)
        \<and> updateRideEndTime_r ident v now sr = (Err (NotFound ident), sr)
        \<and> updateRide_r ident other now sr = (Err (NotFound ident), sr))
   \<and> (btm_get (rideStorage sc) ident = None
      \<longrightarrow> updateRideAvailableSeats_c ident n now sc = (Err (NotFound ident), sc)
        \<and> updateRideStartLocation_c ident v now sc = (Err (NotFound ident), sc)
        \<and> updateRideEndLocation_c ident v now sc = (Err (NotFound ident), sc)
        \<and> updateRideDate_c ident v now sc = (Err (NotFound ident), sc)
        \<and> updateRideStartTime_c ident v now sc = (Err (NotFound ident), sc)
        \<and> updateRideEndTime_c ident v now sc = (Err (NotFound ident), sc)
        \<and> updateRide_c ident (full other) now sc = (Err (NotFound ident), sc))"
  apply (intro conjI impI)
  apply (rule scoped_r_refine scoped_c_refine)+
  apply (simp_all add: scoped_r_present scoped_c_present scoped_r_absent scoped_c_absent
      updateRide_r_absent updateRide_c_absent)
  done

theorem field_scoped_updates_refine_updateRide_witness:
  "(\<exists>rr. btm_get (rideStorage one_ride_r) ''r1'' = Some rr)
   \<and> (\<exists>updated. fst (updateRideAvailableSeats_r ''r1'' (Num 2) 5 one_ride_r) = Ok updated
        \<and> availableSeats updated = Num 2 \<and> updatedAt updated = Some 5
        \<and> startLocation updated = ''A'')
   \<and> updateRideAvailableSeats_r ''r1'' (Num 2) 5 one_ride_r
       = updateRide_r ''r1'' (commute\<lparr>availableSeats := Num 2\<rparr>) 5 one_ride_r
   \<and> (\<exists>rc. btm_get (rideStorage one_ride_c) ''r1'' = Some rc)
   \<and> (\<exists>updated. fst (updateRideStartLocation_c ''r1'' ''C'' 5 one_ride_c) = Ok updated
        \<and> startLocation updated = ''C'' \<and> updatedAt updated = Some 5
        \<and> availableSeats updated = Num 3)
   \<and> btm_get (rideStorage one_ride_r) ''r9'' = None
   \<and> updateRideDate_r ''r9'' ''C'' 5 one_ride_r = (Err (NotFound ''r9''), one_ride_r)
   \<and> btm_get (rideStorage one_ride_c) ''r9'' = None
   \<and> updateRideEndTime_c ''r9'' ''C'' 5 one_ride_c = (Err (NotFound ''r9''), one_ride_c)"
proof -
  have n: "btm_get (rideStorage one_ride_c) ''r9'' = None"
    "btm_get (rideStorage one_ride_r) ''r9'' = None"
    by (simp_all add: one_ride_c_eval one_ride_r_eval btm_get_def)
  obtain rc rr where p: "btm_get (rideStorage one_ride_c) ''r1'' = Some rc"
    "btm_get (rideStorage one_ride_r) ''r1'' = Some rr"
    "availableSeats rc = Num 3" "startLocation rr = ''A''"
    by (simp add: one_ride_c_eval one_ride_r_eval btm_get_def)
  note t1 = field_scoped_updates_refine_updateRide
    [where ident = "''r1''" and n = "Num 2" and v = "''C''" and now = 5 and sr = one_ride_r
       and sc = one_ride_c and rr = rr and rc = rc and other = commute]
  note t2 = field_scoped_updates_refine_updateRide
    [where ident = "''r9''" and n = "Num 2" and v = "''C''" and now = 5 and sr = one_ride_r
       and sc = one_ride_c and rr = rr and rc = rc and other = commute]
  have a: "updateRideAvailableSeats_r ''r1'' (Num 2) 5 one_ride_r
      = (Ok (rr\<lparr>availableSeats := Num 2, updatedAt := Some 5\<rparr>),
         one_ride_r\<lparr>rideStorage := btm_insert (id' rr)
           (rr\<lparr>availableSeats := Num 2, updatedAt := Some 5\<rparr>) (rideStorage one_ride_r)\<rparr>)"
    using t1 p(2) by blast
  have b: "updateRideStartLocation_c ''r1'' ''C'' 5 one_ride_c
      = (Ok (rc\<lparr>startLocation := ''C'', updatedAt := Some 5\<rparr>),
         one_ride_c\<lparr>rideStorage := btm_insert (id' rc)
           (rc\<lparr>startLocation := ''C'', updatedAt := Some 5\<rparr>) (rideStorage one_ride_c)\<rparr>)"
    using t1 p(1) by blast
  have c: "updateRideDate_r ''r9'' ''C'' 5 one_ride_r = (Err (NotFound ''r9''), one_ride_r)"
    using t2 n(2) by blast
  have d: "updateRideEndTime_c ''r9'' ''C'' 5 one_ride_c = (Err (NotFound ''r9''), one_ride_c)"
    using t2 n(1) by blast
  have e: "carried (\<lambda>p. p\<lparr>availableSeats := Num 2\<rparr>) commute ''r1'' one_ride_r
      = commute\<lparr>availableSeats := Num 2\<rparr>"
    by (simp add: carried_def one_ride_r_eval btm_get_def RidePayload.truncate_def commute_def)
  have f: "updateRideAvailableSeats_r ''r1'' (Num 2) 5 one_ride_r
      = updateRide_r ''r1'' (commute\<lparr>availableSeats := Num 2\<rparr>) 5 one_ride_r"
    using t1 e by metis
  from n p show ?thesis
    unfolding f [symmetric] by (simp add: a b c d)
qed

section \<open>Average ratings\<close>

subsection \<open>The cached variant on a stored ride\<close>

text \<open>
  Once a ride is stored under an identifier, \<^verbatim>\<open>getRideAverageRating\<close> throws for it, and so
  does \<^verbatim>\<open>addRideReview\<close> for a payload that passes the validation. No call returns an
  average, and no run caches one.
\<close>

lemma getRideAverageRating_c_stored:
  "btm_get (rideStorage s) rid = Some stored
   \<Longrightarrow> getRideAverageRating_c rid s = (Throws TypeError, s)"
  by (simp add: getRideAverageRating_c_def)

lemma getRideAverageRating_c_absent:
  "btm_get (rideStorage s) rid = None
   \<Longrightarrow> getRideAverageRating_c rid s = (Err RideNotFound, s)"
  by (simp add: getRideAverageRating_c_def)

lemma getRideAverageRating_c_never_Ok: "fst (getRideAverageRating_c rid s) \<noteq> Ok a"
  by (simp add: getRideAverageRating_c_def split: option.splits)

lemma addRideReview_c_stored:
  assumes "btm_get (rideStorage s) (rideId payload) = Some stored"
    "fst (addRideReview_c payload newId now s) \<noteq> Err InvalidPayload"
  shows "fst (addRideReview_c payload newId now s) = Throws TypeError"
  using assms
  by (simp add: addRideReview_c_def updateRideAverageRating_def Let_def split: if_splits)

lemma never_cached_insert:
  "never_cached s \<Longrightarrow> averageRating v = None
   \<Longrightarrow> never_cached (s\<lparr>rideStorage := btm_insert k v (rideStorage s)\<rparr>)"
  by (simp add: never_cached_def list_all_btm_insert)

lemma never_cached_addRide_c: "never_cached s \<Longrightarrow> never_cached (snd (addRide_c payload newId now s))"
  by (simp add: addRide_c_def Let_def never_cached_insert)

lemma never_cached_updateRide_c:
  assumes "never_cached s"
  shows "never_cached (snd (updateRide_c ident obj now s))"
proof (cases "btm_get (rideStorage s) ident")
  case None
  with assms show ?thesis by (simp add: updateRide_c_def)
next
  case (Some stored)
  then have "averageRating stored = None"
    using assms btm_get_mem [of "rideStorage s" ident stored]
    by (auto simp: never_cached_def list_all_iff)
  with assms Some show ?thesis
    by (simp add: updateRide_c_def Let_def spread_def never_cached_insert)
qed

lemma never_cached_deleteRide_c: "never_cached s \<Longrightarrow> never_cached (snd (deleteRide_c ident s))"
  by (auto simp: deleteRide_c_def never_cached_def btm_remove_def list_all_iff
      split: option.splits)

lemma never_cached_addRideReview_c:
  "never_cached s \<Longrightarrow> never_cached (snd (addRideReview_c payload newId now s))"
  using addRideReview_c_rideStorage [of payload newId now s]
  by (simp add: never_cached_def)

lemma reachable_c_never_cached: "reachable_c s \<Longrightarrow> never_cached s"
proof (induction rule: reachable_c.induct)
  case init_c
  show ?case by (simp add: initial_def never_cached_def)
next
  case (addRide_c s payload newId now)
  then show ?case by (simp add: never_cached_addRide_c)
next
  case (updateRide_c s ident obj now)
  then show ?case by (simp add: never_cached_updateRide_c)
next
  case (deleteRide_c s ident)
  then show ?case by (simp add: never_cached_deleteRide_c)
next
  case (addRideReview_c s review newId now)
  then show ?case by (simp add: never_cached_addRideReview_c)
qed

subsection \<open>A ride without reviews\<close>

lemma btm_values_insert_fresh:
  "btm_get m k = None \<Longrightarrow> btm_values (btm_insert k v m) = btm_values m @ [v]"
  by (simp add: btm_insert_fresh btm_values_def)

lemma getRideAverageRating_r_no_reviews:
  assumes "\<forall>review \<in> set (btm_values (rideReviewStorage s)). rideId review \<noteq> rid"
  shows "getRideAverageRating_r rid s = (Err NoReviews, s)"
proof -
  have "filter (\<lambda>review. rideId review = rid) (btm_values (rideReviewStorage s)) = []"
    using assms by (simp add: filter_empty_conv)
  then show ?thesis
    by (simp add: getRideAverageRating_r_def)
qed

text \<open>
  Claim C5, as stated, fails on the cached variant for an identifier that is the key of no
  ride: no review has that \<open>rideId\<close>, and the error is \<open>RideNotFound\<close>, not \<open>NoReviews\<close>.
\<close>

theorem getRideAverageRating_c_missing_ride_counterexample:
  "btm_values (rideReviewStorage (initial :: state_c)) = []
   \<and> getRideAverageRating_c ''r1'' initial = (Err RideNotFound, initial)
   \<and> fst (getRideAverageRating_c ''r1'' initial) \<noteq> Err NoReviews"
  by (simp add: getRideAverageRating_c_def initial_def btm_values_def btm_get_def)

text \<open>
  Claim C5, amended. When no stored review has the given \<open>rideId\<close>, the recompute variant
  of \<^verbatim>\<open>getRideAverageRating\<close> fails with \<open>NoReviews\<close>, whether or not a ride is stored
  under it. The cached variant fails with \<open>RideNotFound\<close> when no ride is stored under the
  identifier, whatever the reviews.
\<close>

theorem getRideAverageRating_without_reviews:
  "((\<forall>review \<in> set (btm_values (rideReviewStorage sr)). rideId review \<noteq> rid)
      \<longrightarrow> getRideAverageRating_r rid sr = (Err NoReviews, sr))
   \<and> (btm_get (rideStorage sc) rid = None
      \<longrightarrow> getRideAverageRating_c rid sc = (Err RideNotFound, sc))"
  using getRideAverageRating_r_no_reviews [of sr rid]
    getRideAverageRating_c_absent [of sc rid]
  by blast

theorem getRideAverageRating_without_reviews_witness:
  "btm_values (rideReviewStorage one_ride_r) = []
   \<and> getRideAverageRating_r ''r1'' one_ride_r = (Err NoReviews, one_ride_r)
   \<and> btm_get (rideStorage one_ride_c) ''r9'' = None
   \<and> getRideAverageRating_c ''r9'' one_ride_c = (Err RideNotFound, one_ride_c)"
proof -
  have e: "btm_values (rideReviewStorage one_ride_r) = []"
    by (simp add: one_ride_r_eval btm_values_def)
  have g: "btm_get (rideStorage one_ride_c) ''r9'' = None"
    by (simp add: one_ride_c_eval btm_get_def)
  from e g getRideAverageRating_without_reviews [of one_ride_r "''r1''" one_ride_c]
    getRideAverageRating_without_reviews [of one_ride_r "''r9''" one_ride_c]
  show ?thesis
    by simp
qed

subsection \<open>The mean of the submitted ratings\<close>

text \<open>
  The recompute variant reports the arithmetic mean of the ratings submitted for the
  ride, whatever the order of the submissions.
\<close>

lemma foldl_rating_sum:
  "foldl (\<lambda>sum review. sum + rating review) a reviews = a + sum_list (map rating reviews)"
  by (induction reviews arbitrary: a) (simp_all add: add.assoc)

lemma getRideAverageRating_r_mean:
  "getRideAverageRating_r rid s =
     (if filter (\<lambda>review. rideId review = rid) (btm_values (rideReviewStorage s)) = []
      then Err NoReviews
      else Ok (mean (map rating (filter (\<lambda>review. rideId review = rid)
                                    (btm_values (rideReviewStorage s))))), s)"
  by (simp add: getRideAverageRating_r_def Let_def foldl_rating_sum mean_def)

lemma addRideReviews_r_values:
  assumes "distinct (map (\<lambda>x. fst (snd x)) subs)"
    "\<forall>x \<in> set subs. btm_get (rideReviewStorage s) (fst (snd x)) = None"
  shows "btm_values (rideReviewStorage (addRideReviews_r subs s))
     = btm_values (rideReviewStorage s) @ map review_record subs"
  using assms
proof (induction subs arbitrary: s)
  case Nil
  show ?case by simp
next
  case (Cons x subs)
  obtain payload newId now where x: "x = (payload, newId, now)"
    by (cases x) auto
  define s1 where "s1 = snd (addRideReview_r payload newId now s)"
  have fresh: "btm_get (rideReviewStorage s) newId = None"
    using Cons.prems(2) x by simp
  have v1: "btm_values (rideReviewStorage s1)
      = btm_values (rideReviewStorage s) @ [review_record x]"
    using fresh
    by (simp add: s1_def addRideReview_r_def Let_def btm_values_insert_fresh review_record_def x)
  have g1: "btm_get (rideReviewStorage s1) k
      = (if k = newId then Some (review_record x) else btm_get (rideReviewStorage s) k)" for k
    by (simp add: s1_def addRideReview_r_def Let_def btm_get_insert review_record_def x)
  have "distinct (map (\<lambda>x. fst (snd x)) subs)"
    using Cons.prems(1) by simp
  moreover have "\<forall>y \<in> set subs. btm_get (rideReviewStorage s1) (fst (snd y)) = None"
    using Cons.prems x by (auto simp: g1)
  ultimately have "btm_values (rideReviewStorage (addRideReviews_r subs s1))
      = btm_values (rideReviewStorage s1) @ map review_record subs"
    by (rule Cons.IH)
  then show ?case
    by (simp add: x s1_def [symmetric] v1)
qed

lemma ratings_of_records:
  "map rating (filter (\<lambda>review. rideId review = rid) (map review_record subs))
     = ratings_for rid subs"
  by (induction subs) (auto simp: ratings_for_def review_record_def)

lemma recompute_average_is_mean:
  assumes "distinct (map (\<lambda>x. fst (snd x)) subs)"
    "\<forall>x \<in> set subs. btm_get (rideReviewStorage s) (fst (snd x)) = None"
    "\<forall>review \<in> set (btm_values (rideReviewStorage s)). rideId review \<noteq> rid"
    "ratings_for rid subs \<noteq> []"
  shows "fst (getRideAverageRating_r rid (addRideReviews_r subs s))
     = Ok (mean (ratings_for rid subs))"
proof -
  have old: "filter (\<lambda>review. rideId review = rid) (btm_values (rideReviewStorage s)) = []"
    using assms(3) by (simp add: filter_empty_conv)
  have "map rating (filter (\<lambda>review. rideId review = rid)
          (btm_values (rideReviewStorage (addRideReviews_r subs s))))
      = ratings_for rid subs"
    using addRideReviews_r_values [OF assms(1,2)] old by (simp add: ratings_of_records)
  with assms(4) show ?thesis
    by (auto simp: getRideAverageRating_r_mean)
qed

lemma mean_permutation: "mset xs = mset ys \<Longrightarrow> mean xs = mean ys"
  by (metis mean_def mset_eq_length sum_mset_sum_list)

lemma ratings_for_permutation:
  "mset subs = mset subs' \<Longrightarrow> mset (ratings_for rid subs) = mset (ratings_for rid subs')"
  by (simp add: ratings_for_def)

lemma recompute_average_order_independent:
  assumes "mset subs = mset subs'" "distinct (map (\<lambda>x. fst (snd x)) subs)"
    "\<forall>x \<in> set subs. btm_get (rideReviewStorage s) (fst (snd x)) = None"
    "\<forall>review \<in> set (btm_values (rideReviewStorage s)). rideId review \<noteq> rid"
    "ratings_for rid subs \<noteq> []"
  shows "fst (getRideAverageRating_r rid (addRideReviews_r subs' s))
     = fst (getRideAverageRating_r rid (addRideReviews_r subs s))"
proof -
  have d: "distinct (map (\<lambda>x. fst (snd x)) subs')"
    using assms(1,2) by (metis mset_map mset_eq_imp_distinct_iff)
  have f: "\<forall>x \<in> set subs'. btm_get (rideReviewStorage s) (fst (snd x)) = None"
    using assms(1,3) by (metis mset_eq_setD)
  have m: "mset (ratings_for rid subs) = mset (ratings_for rid subs')"
    using assms(1) by (rule ratings_for_permutation)
  then have n: "ratings_for rid subs' \<noteq> []"
    using assms(5) by (metis mset_zero_iff)
  show ?thesis
    using recompute_average_is_mean [OF d f assms(4) n]
      recompute_average_is_mean [OF assms(2,3,4,5)] mean_permutation [OF m]
    by simp
qed

lemma recompute_average_of_5_3_4:
  "fst (getRideAverageRating_r ''r1''
          (addRideReviews_r [(review_of ''r1'' (Num 5), ''a'', 2), (review_of ''r1'' (Num 3), ''b'', 3),
                             (review_of ''r1'' (Num 4), ''c'', 4)] one_ride_r))
     = Ok (Num 4)"
  by (simp add: one_ride_r_eval addRideReview_r_def review_of_def
      getRideAverageRating_r_def btm_values_def Let_def zero_number_def)

text \<open>
  Claim C1 says that the average reported for a ride is the arithmetic mean of the ratings
  submitted for it, in any order of submission, and 4 for the ratings 5, 3, 4. The cached
  variant does not meet it. For the stored ride \<open>r1\<close> the first \<^verbatim>\<open>addRideReview\<close> already
  throws, at \<^verbatim>\<open>record.averageRating.isSome()\<close> in \<^verbatim>\<open>updateRideAverageRating\<close>; after the
  three submissions with the ratings 5, 3, 4 the cached average of the ride is still empty
  and \<^verbatim>\<open>getRideAverageRating\<close> throws as well, where the mean is 4.
\<close>

theorem cached_average_of_5_3_4:
  "fst (addRideReview_c (review_of ''r1'' (Num 5)) ''a'' 2 one_ride_c) = Throws TypeError
   \<and> map (\<lambda>e. averageRating (snd e))
        (rideStorage
          (addRideReviews_c [(review_of ''r1'' (Num 5), ''a'', 2),
                             (review_of ''r1'' (Num 3), ''b'', 3),
                             (review_of ''r1'' (Num 4), ''c'', 4)] one_ride_c))
       = [None]
   \<and> fst (getRideAverageRating_c ''r1''
          (addRideReviews_c [(review_of ''r1'' (Num 5), ''a'', 2),
                             (review_of ''r1'' (Num 3), ''b'', 3),
                             (review_of ''r1'' (Num 4), ''c'', 4)] one_ride_c))
       = Throws TypeError
   \<and> mean [Num 5, Num 3, Num 4] = Num 4"
  by (simp add: one_ride_c_eval addRideReview_c_def review_of_def
      updateRideAverageRating_def getRideAverageRating_c_def btm_get_def
      Let_def falsy_string_def mean_def zero_number_def)

end
